theory Spec2Isabelle
  imports Complex_Main "HOL-Library.Product_Lexorder"
begin

section \<open>PressurePlotImproved: a shallow embedding\<close>

text \<open>
  The development follows the Python sources \<^verbatim>\<open>serialdevices.py\<close>,
  \<^verbatim>\<open>windows.py\<close> and \<^verbatim>\<open>workers.py\<close>.  numpy arrays are lists, Python
  floats are modelled as real numbers (so infinities and NaN are outside the model, and
  so is rounding, except in the means of \<^verbatim>\<open>saveData\<close>, whose additions and divisions
  round to float64), an attribute that \<^verbatim>\<open>__init__\<close> never assigns is an \<open>option\<close>,
  and every \<^verbatim>\<open>raise\<close> is a left injection into a sum type.  The array of tap
  coordinates, which the setup window shares with the workers, lives in a store.
\<close>

subsection \<open>Exceptions\<close>

datatype pyexc =
    IndexError
  | ValueError
  | AttributeError
  | PortNotOpenError
  | EmptyDataError
  | ParserError
  | InvalidIndexError
  | Exception string

subsection \<open>serialdevices.py: class Device\<close>

text \<open>
  \<open>ser_open\<close> is the state of the \<^verbatim>\<open>serial.Serial\<close> object held in
  \<^verbatim>\<open>self.ser_dev\<close>: pyserial raises \<^verbatim>\<open>PortNotOpenError\<close> from
  \<^verbatim>\<open>reset_input_buffer\<close>, \<^verbatim>\<open>write\<close> and \<^verbatim>\<open>readline\<close> once the port
  has been closed.
\<close>

record device =
  connection_established :: bool
  expected_shape :: nat
  ser_open :: bool

text \<open>
  \<^verbatim>\<open>Device.__init__\<close>: \<open>opened\<close> says whether opening the port and the
  \<^verbatim>\<open>Rate 0\<close> handshake went through; otherwise no object is constructed.
\<close>

definition Device_init :: "bool \<Rightarrow> nat \<Rightarrow> pyexc + device" where
  "Device_init opened shape =
     (if opened
      then Inr \<lparr>connection_established = True, expected_shape = shape, ser_open = True\<rparr>
      else Inl (Exception ''ERROR connecting devices.''))"

text \<open>
  The body of the \<^verbatim>\<open>try\<close> block of \<^verbatim>\<open>getNewData\<close>.  \<open>reply\<close> is what
  \<^verbatim>\<open>readline\<close>, \<^verbatim>\<open>decode\<close> and \<^verbatim>\<open>np.fromstring\<close> produce on an open
  port: an exception, or the parsed array.  A device whose flag is unset falls through
  the \<^verbatim>\<open>if\<close> and returns \<^verbatim>\<open>None\<close>.
\<close>

definition getNewData_try :: "device \<Rightarrow> pyexc + real list \<Rightarrow> device \<times> (pyexc + real list option)" where
  "getNewData_try d reply =
     (if connection_established d then
        (if \<not> ser_open d then (d, Inl PortNotOpenError)
         else (case reply of
                 Inl e \<Rightarrow> (d, Inl e)
               | Inr data_array \<Rightarrow>
                   (if length data_array = expected_shape d
                    then (d, Inr (Some data_array))
                    else (d\<lparr>ser_open := False\<rparr>,
                          Inl (Exception ''Received data does not have expected shape.'')))))
      else (d, Inr None))"

text \<open>The bare \<^verbatim>\<open>except:\<close> replaces whatever was raised by one fixed exception.\<close>

definition getNewData :: "device \<Rightarrow> pyexc + real list \<Rightarrow> device \<times> (pyexc + real list option)" where
  "getNewData d reply =
     (case getNewData_try d reply of
        (d', Inl e) \<Rightarrow> (d', Inl (Exception ''ERROR in method getNewData.''))
      | (d', Inr r) \<Rightarrow> (d', Inr r))"

definition close :: "device \<Rightarrow> device" where
  "close d = d\<lparr>ser_open := False\<rparr>"

subsection \<open>numpy operations used by the workers\<close>

definition exc_bind :: "pyexc + 'a \<Rightarrow> ('a \<Rightarrow> pyexc + 'b) \<Rightarrow> pyexc + 'b" where
  "exc_bind m f = (case m of Inl e \<Rightarrow> Inl e | Inr v \<Rightarrow> f v)"

text \<open>\<^verbatim>\<open>arr[mask]\<close> with a boolean mask: the mask must be as long as the array.\<close>

definition bool_index :: "'a list \<Rightarrow> bool list \<Rightarrow> pyexc + 'a list" where
  "bool_index arr msk =
     (if length msk = length arr
      then Inr (map fst (filter snd (zip arr msk)))
      else Inl IndexError)"

text \<open>
  \<^verbatim>\<open>idx = np.lexsort((pressures, x)); x[idx]; pressures[idx]\<close>: the pairs in ascending
  order of the coordinate, ties broken by the pressure.
\<close>

definition lexsort2 :: "real list \<Rightarrow> real list \<Rightarrow> pyexc + (real \<times> real) list" where
  "lexsort2 pressures xs =
     (if length pressures = length xs then Inr (sort (zip xs pressures)) else Inl ValueError)"

definition linspace :: "real \<Rightarrow> real \<Rightarrow> nat \<Rightarrow> real list" where
  "linspace a b n = map (\<lambda>i. a + real i * ((b - a) / real (n - 1))) [0..<n]"

definition diff :: "real list \<Rightarrow> real list" where
  "diff xs = map2 (\<lambda>a b. b - a) xs (tl xs)"

definition deg2rad :: "real \<Rightarrow> real" where
  "deg2rad a = a * (pi / 180)"

text \<open>
  \<^verbatim>\<open>scipy.interpolate.Akima1DInterpolator(x, y)\<close> is a parameter of the model: the
  constructor raises or yields the interpolant, which is then evaluated pointwise.
\<close>

type_synonym interpolator = "real list \<Rightarrow> real list \<Rightarrow> pyexc + (real \<Rightarrow> real)"

subsection \<open>workers.py: class Calculations\<close>

text \<open>
  The five setup attributes are assigned by \<^verbatim>\<open>updateSetupData\<close>; before its first
  call they do not exist.  \<^verbatim>\<open>self.lift\<close> does not exist before the first
  successful calculation.
\<close>

record setup_data =
  mask_top :: "bool list"
  mask_bottom :: "bool list"
  x_coordinates :: "real list"
  x_coordinates_top :: "real list"
  x_coordinates_bottom :: "real list"

record Calculations =
  pressure_array :: "real list"
  setup_attrs :: "setup_data option"
  angle :: real
  width :: real
  chord_length :: real
  x_wing_top :: "real list"
  x_wing_bottom :: "real list"
  y_wing_top :: "real list"
  y_wing_bottom :: "real list"
  number_of_interpolated_points :: nat
  spline_top :: "real list"
  spline_bottom :: "real list"
  lift :: "real option"

text \<open>The tuple sent with \<^verbatim>\<open>send_lift_splines_sig\<close>, in the order of the source.\<close>

record lift_and_splines =
  ls_lift :: real
  ls_spline_top :: "real list"
  ls_spline_bottom :: "real list"
  ls_x_grid_interpolation :: "real list"
  ls_y_wing_top :: "real list"
  ls_y_wing_bottom :: "real list"
  ls_x_wing_interpolation_top :: "real list"
  ls_x_wing_interpolation_bottom :: "real list"
  ls_lift_data_available :: bool

text \<open>Lines 1122 to 1127: the trailing anchor of the top surface.\<close>

definition append_trailing_top :: "real list \<Rightarrow> real list \<Rightarrow> pyexc + (real list \<times> real list)" where
  "append_trailing_top x_calc pressures =
     (if x_calc = [] then Inl IndexError
      else if last x_calc < 99 / 100 then
        (if length pressures < 2 then Inl IndexError
         else
           let last_pressure_top =
                 pressures ! (length pressures - 2)
                 + (last pressures - pressures ! (length pressures - 2))
           in Inr (x_calc @ [1], pressures @ [last_pressure_top]))
      else Inr (x_calc, pressures))"

text \<open>
  Lines 1129 to 1135: the trailing anchor of the bottom surface.  The divisor and the
  scale factor read \<^verbatim>\<open>self.x_coordinates_bottom\<close>, the coordinates in tap order, not
  the sorted copy.
\<close>

definition append_trailing_bottom ::
    "real list \<Rightarrow> real list \<Rightarrow> real list \<Rightarrow> pyexc + (real list \<times> real list)" where
  "append_trailing_bottom self_x_bottom x_calc pressures =
     (if x_calc = [] then Inl IndexError
      else if last x_calc < 99 / 100 then
        (if length pressures < 2 \<or> length self_x_bottom < 2 then Inl IndexError
         else
           let last_pressure_bottom =
                 pressures ! (length pressures - 2)
                 + ((last pressures - pressures ! (length pressures - 2))
                    / (last self_x_bottom - self_x_bottom ! (length self_x_bottom - 2)))
                   * (1 - self_x_bottom ! (length self_x_bottom - 2))
           in Inr (x_calc @ [1], pressures @ [last_pressure_bottom]))
      else Inr (x_calc, pressures))"

text \<open>Lines 1137 to 1143: the leading anchor, the same code on both surfaces.\<close>

definition prepend_leading :: "real list \<Rightarrow> real list \<Rightarrow> pyexc + (real list \<times> real list)" where
  "prepend_leading x_calc pressures =
     (if x_calc = [] then Inl IndexError
      else if hd x_calc > 1 / 100000 then Inr (0 # x_calc, 0 # pressures)
      else Inr (x_calc, pressures))"

text \<open>
  Lines 1100 to 1143: the knots of both surfaces after selection, sorting and boundary
  extension, as \<open>((x_top, p_top), (x_bottom, p_bottom))\<close>.
\<close>

definition extended_knots ::
    "Calculations \<Rightarrow> pyexc + ((real list \<times> real list) \<times> (real list \<times> real list))" where
  "extended_knots c =
     (case setup_attrs c of
        None \<Rightarrow> Inl AttributeError
      | Some su \<Rightarrow>
          exc_bind (bool_index (pressure_array c) (mask_top su)) (\<lambda>pressures_top.
          exc_bind (bool_index (pressure_array c) (mask_bottom su)) (\<lambda>pressures_bottom.
          exc_bind (lexsort2 pressures_top (x_coordinates_top su)) (\<lambda>sorted_top.
          exc_bind (lexsort2 pressures_bottom (x_coordinates_bottom su)) (\<lambda>sorted_bottom.
          exc_bind (append_trailing_top (map fst sorted_top) (map snd sorted_top)) (\<lambda>knots_top.
          exc_bind (append_trailing_bottom (x_coordinates_bottom su)
                      (map fst sorted_bottom) (map snd sorted_bottom)) (\<lambda>knots_bottom.
          exc_bind (prepend_leading (fst knots_top) (snd knots_top)) (\<lambda>knots_top'.
          exc_bind (prepend_leading (fst knots_bottom) (snd knots_bottom)) (\<lambda>knots_bottom'.
          Inr (knots_top', knots_bottom'))))))))))"

text \<open>
  Lines 1146 to 1154: the interpolation grid and the two pressure splines sampled on it,
  as \<open>(x_grid_interpolation, interpolate_pressures_top, interpolate_pressures_bottom)\<close>.
\<close>

definition interpolate_pressures ::
    "interpolator \<Rightarrow> Calculations \<Rightarrow> pyexc + (real list \<times> real list \<times> real list)" where
  "interpolate_pressures akima c =
     exc_bind (extended_knots c) (\<lambda>(knots_top, knots_bottom).
       let x_grid_interpolation = linspace 0 1 (number_of_interpolated_points c) in
       exc_bind (akima (fst knots_top) (snd knots_top)) (\<lambda>f_top.
       exc_bind (akima (fst knots_bottom) (snd knots_bottom)) (\<lambda>f_bottom.
       Inr (x_grid_interpolation,
            map f_top x_grid_interpolation,
            map f_bottom x_grid_interpolation))))"

text \<open>Lines 1180 to 1199, top surface: deltas, angles, areas, normals and the sum.\<close>

definition lift_top :: "real \<Rightarrow> real \<Rightarrow> real list \<Rightarrow> real list \<Rightarrow> real list \<Rightarrow> real" where
  "lift_top w chord x_wing_interpolation y_wing interpolate_pressures_top =
     (let delta_x = diff (map (\<lambda>x. x * chord) x_wing_interpolation);
          delta_y = diff y_wing;
          alpha = map2 (\<lambda>dy dx. arctan (dy / dx)) delta_y delta_x;
          area = map2 (\<lambda>dx a. w * (dx / cos a)) delta_x alpha;
          norm_y = map (\<lambda>a. - 1 * cos a) alpha
      in sum_list (map2 (*) (map2 (*) (map (\<lambda>p. - 1 * p) (tl interpolate_pressures_top)) norm_y)
                    area))"

text \<open>Lines 1181 to 1204, bottom surface: the normal has the opposite sign.\<close>

definition lift_bottom :: "real \<Rightarrow> real \<Rightarrow> real list \<Rightarrow> real list \<Rightarrow> real list \<Rightarrow> real" where
  "lift_bottom w chord x_wing_interpolation y_wing interpolate_pressures_bottom =
     (let delta_x = diff (map (\<lambda>x. x * chord) x_wing_interpolation);
          delta_y = diff y_wing;
          alpha = map2 (\<lambda>dy dx. arctan (dy / dx)) delta_y delta_x;
          area = map2 (\<lambda>dx a. w * (dx / cos a)) delta_x alpha;
          norm_y = map (\<lambda>a. cos a) alpha
      in sum_list (map2 (*) (map2 (*) (map (\<lambda>p. - 1 * p) (tl interpolate_pressures_bottom))
                    norm_y) area))"

text \<open>
  Lines 1160 to 1209: the wing curves resampled on \<^verbatim>\<open>linspace(x[0], x[-1], N)\<close> and the
  lift, as \<open>(lift, y_wing_top, y_wing_bottom, x_wing_interpolation_top,
  x_wing_interpolation_bottom)\<close>.
\<close>

definition wing_and_lift ::
    "interpolator \<Rightarrow> Calculations \<Rightarrow> real list \<Rightarrow> real list
      \<Rightarrow> pyexc + (real \<times> real list \<times> real list \<times> real list \<times> real list)" where
  "wing_and_lift akima c interpolate_pressures_top interpolate_pressures_bottom =
     (if x_wing_top c = [] then Inl IndexError
      else if x_wing_bottom c = [] then Inl IndexError
      else
        let x_wing_interpolation_top =
              linspace (hd (x_wing_top c)) (last (x_wing_top c))
                (number_of_interpolated_points c);
            x_wing_interpolation_bottom =
              linspace (hd (x_wing_bottom c)) (last (x_wing_bottom c))
                (number_of_interpolated_points c)
        in
        exc_bind (akima (x_wing_top c) (Calculations.y_wing_top c)) (\<lambda>g_top.
        exc_bind (akima (x_wing_bottom c) (Calculations.y_wing_bottom c)) (\<lambda>g_bottom.
          let y_top = map g_top x_wing_interpolation_top;
              y_bottom = map g_bottom x_wing_interpolation_bottom;
              total =
                lift_top (width c) (chord_length c) x_wing_interpolation_top y_top
                  interpolate_pressures_top
                + lift_bottom (width c) (chord_length c) x_wing_interpolation_bottom y_bottom
                    interpolate_pressures_bottom
          in Inr (total * cos (deg2rad (angle c)),
                  y_top, y_bottom, x_wing_interpolation_top, x_wing_interpolation_bottom))))"

text \<open>
  \<^verbatim>\<open>calculateLiftAndSplines\<close>: the object after the call, the tuple emitted with
  \<^verbatim>\<open>send_lift_splines_sig\<close> (if any) and the exception that the handler hands to
  \<^verbatim>\<open>print\<close> and to \<^verbatim>\<open>logging.error\<close> (if any).  The two spline attributes are
  assigned at lines 1156 and 1157, before the wing is resampled.
\<close>

definition calculateLiftAndSplines ::
    "interpolator \<Rightarrow> Calculations \<Rightarrow> Calculations \<times> lift_and_splines option \<times> pyexc option" where
  "calculateLiftAndSplines akima c =
     (case interpolate_pressures akima c of
        Inl err \<Rightarrow> (c, None, Some err)
      | Inr (x_grid_interpolation, interpolate_pressures_top, interpolate_pressures_bottom) \<Rightarrow>
          let c1 = c\<lparr>spline_top := interpolate_pressures_top,
                      spline_bottom := interpolate_pressures_bottom\<rparr>
          in (case wing_and_lift akima c1 interpolate_pressures_top interpolate_pressures_bottom of
                Inl err \<Rightarrow> (c1, None, Some err)
              | Inr (l, y_top, y_bottom, xw_top, xw_bottom) \<Rightarrow>
                  (c1\<lparr>lift := Some l\<rparr>,
                   Some \<lparr>ls_lift = l,
                         ls_spline_top = spline_top c1,
                         ls_spline_bottom = spline_bottom c1,
                         ls_x_grid_interpolation = x_grid_interpolation,
                         ls_y_wing_top = y_top,
                         ls_y_wing_bottom = y_bottom,
                         ls_x_wing_interpolation_top = xw_top,
                         ls_x_wing_interpolation_bottom = xw_bottom,
                         ls_lift_data_available = True\<rparr>,
                   None)))"

text \<open>
  The other slots of \<^verbatim>\<open>Calculations\<close>.  \<^verbatim>\<open>updateData\<close> also stores the four
  environment values and \<^verbatim>\<open>updateSpinboxValues\<close> the velocity, which the
  calculation never reads.  \<^verbatim>\<open>updateSetupData\<close> assigns the masks and the
  coordinates and then indexes the coordinates with each mask; if an indexing raises, the
  attributes assigned so far keep their new values and the remaining ones their old
  state (when they did not exist before, they still do not exist).
\<close>

definition updateData :: "Calculations \<Rightarrow> real list \<Rightarrow> Calculations" where
  "updateData c pressures = c\<lparr>Calculations.pressure_array := pressures\<rparr>"

definition updateSpinboxValues :: "Calculations \<Rightarrow> real \<times> real \<times> real \<Rightarrow> Calculations" where
  "updateSpinboxValues c spinbox_values =
     c\<lparr>Calculations.angle := fst spinbox_values,
       Calculations.width := snd (snd spinbox_values)\<rparr>"

definition updateSetupData ::
    "Calculations \<Rightarrow> bool list \<times> bool list \<times> real list \<Rightarrow> Calculations" where
  "updateSetupData c setup_data =
     (let mt = fst setup_data; mb = fst (snd setup_data); xs = snd (snd setup_data);
          assigned = (\<lambda>su. su\<lparr>setup_data.mask_top := mt, setup_data.mask_bottom := mb,
                                 setup_data.x_coordinates := xs\<rparr>)
      in case bool_index xs mt of
           Inl err \<Rightarrow> c\<lparr>Calculations.setup_attrs := map_option assigned (setup_attrs c)\<rparr>
         | Inr xt \<Rightarrow>
             (case bool_index xs mb of
                Inl err \<Rightarrow>
                  c\<lparr>Calculations.setup_attrs :=
                      map_option (\<lambda>su. (assigned su)\<lparr>setup_data.x_coordinates_top := xt\<rparr>)
                        (setup_attrs c)\<rparr>
              | Inr xb \<Rightarrow>
                  c\<lparr>Calculations.setup_attrs :=
                      Some \<lparr>setup_data.mask_top = mt, setup_data.mask_bottom = mb,
                            setup_data.x_coordinates = xs,
                            setup_data.x_coordinates_top = xt,
                            setup_data.x_coordinates_bottom = xb\<rparr>\<rparr>))"

text \<open>The slots of \<^verbatim>\<open>Calculations\<close> as events, and the object after a run of them.\<close>

datatype event =
    UpdateData "real list"
  | UpdateSpinboxValues real real real
  | UpdateSetupData "bool list" "bool list" "real list"
  | CalculateLiftAndSplines

fun slot :: "interpolator \<Rightarrow> Calculations \<Rightarrow> event \<Rightarrow> Calculations" where
  "slot akima c (UpdateData pressures) = updateData c pressures"
| "slot akima c (UpdateSpinboxValues a v w) = updateSpinboxValues c (a, v, w)"
| "slot akima c (UpdateSetupData mt mb xs) = updateSetupData c (mt, mb, xs)"
| "slot akima c CalculateLiftAndSplines = fst (calculateLiftAndSplines akima c)"

definition run_slots :: "interpolator \<Rightarrow> Calculations \<Rightarrow> event list \<Rightarrow> Calculations" where
  "run_slots akima c events = foldl (slot akima) c events"

text \<open>The attributes of \<^verbatim>\<open>Calculations\<close> that no slot assigns.\<close>

definition wing_fields :: "Calculations \<Rightarrow> real list \<times> real list \<times> real list \<times> real list \<times> nat" where
  "wing_fields c = (x_wing_top c, x_wing_bottom c, Calculations.y_wing_top c,
      Calculations.y_wing_bottom c, number_of_interpolated_points c)"

subsection \<open>workers.py: class Plot\<close>

text \<open>
  The data of a \<^verbatim>\<open>Line2D\<close> artist is the pair of arrays last given to
  \<^verbatim>\<open>set_data\<close>.  An LCD shows the text of \<^verbatim>\<open>f"{value:.0kf}"\<close>, kept here as
  the number of decimals \<open>k\<close> and the value that was formatted.
\<close>

type_synonym line_data = "real list \<times> real list"

datatype lcd_text = Fixed nat real

text \<open>
  \<^verbatim>\<open>Plot.__init__\<close> assigns neither \<^verbatim>\<open>x_grid_interpolation\<close>, \<^verbatim>\<open>spline_top\<close>
  nor \<^verbatim>\<open>spline_bottom\<close> (they first exist after \<^verbatim>\<open>updateLiftAndSplines\<close>), and
  not the two coordinate arrays (they first exist after \<^verbatim>\<open>updateSetupData\<close>).
  \<open>checkboxes_enabled\<close> is the state that \<^verbatim>\<open>activate_checkboxes_sig\<close> and
  \<^verbatim>\<open>deactivate_checkboxes_sig\<close> switch in the plot window.
\<close>

record Plot =
  velocity :: real
  lift :: real
  pressure_array :: "real list"
  mask_top :: "bool list"
  mask_bottom :: "bool list"
  x_coordinates_top :: "real list option"
  x_coordinates_bottom :: "real list option"
  checkbox_tuple :: "bool \<times> bool \<times> bool"
  temperature :: real
  p_amb :: real
  humidity :: real
  density :: real
  y_wing_scale_pressures :: real
  y_wing_scale_cp :: real
  wing_sign :: real
  x_wing_interpolation_top :: "real list"
  x_wing_interpolation_bottom :: "real list"
  y_wing_top :: "real list"
  y_wing_bottom :: "real list"
  lift_data_available :: bool
  x_grid_interpolation :: "real list option"
  spline_top :: "real list option"
  spline_bottom :: "real list option"
  line_pressures_top :: line_data
  line_pressures_bottom :: line_data
  line_spline_top :: line_data
  line_spline_bottom :: line_data
  line_wing_top :: line_data
  line_wing_bottom :: line_data
  temp_lcd :: lcd_text
  p_amb_lcd :: lcd_text
  hum_lcd :: lcd_text
  dens_lcd :: lcd_text
  lift_top_lcd :: lcd_text
  lift_bottom_lcd :: lcd_text
  checkboxes_enabled :: bool

definition updateLiftAndSplines :: "Plot \<Rightarrow> lift_and_splines \<Rightarrow> Plot" where
  "updateLiftAndSplines p lift_and_splines =
     p\<lparr>Plot.lift := ls_lift lift_and_splines,
       Plot.spline_top := Some (ls_spline_top lift_and_splines),
       Plot.spline_bottom := Some (ls_spline_bottom lift_and_splines),
       x_grid_interpolation := Some (ls_x_grid_interpolation lift_and_splines),
       Plot.y_wing_top := ls_y_wing_top lift_and_splines,
       Plot.y_wing_bottom := ls_y_wing_bottom lift_and_splines,
       x_wing_interpolation_top := ls_x_wing_interpolation_top lift_and_splines,
       x_wing_interpolation_bottom := ls_x_wing_interpolation_bottom lift_and_splines,
       lift_data_available := ls_lift_data_available lift_and_splines\<rparr>"

definition updateDynamicLCDs :: "Plot \<Rightarrow> Plot" where
  "updateDynamicLCDs p =
     p\<lparr>temp_lcd := Fixed 2 (temperature p),
       p_amb_lcd := Fixed 2 (p_amb p),
       hum_lcd := Fixed 1 (humidity p),
       dens_lcd := Fixed 2 (density p),
       lift_top_lcd := Fixed 2 (Plot.lift p),
       lift_bottom_lcd := Fixed 2 (Plot.lift p)\<rparr>"

text \<open>Reading an attribute that may not exist yet.\<close>

definition attr :: "'a option \<Rightarrow> pyexc + 'a" where
  "attr a = (case a of None \<Rightarrow> Inl AttributeError | Some v \<Rightarrow> Inr v)"

text \<open>
  A method body is a list of statements, each raising or giving the next state; the
  state reached when a statement raises is kept, with the exception.
\<close>

fun run_statements :: "('s \<Rightarrow> pyexc + 's) list \<Rightarrow> 's \<Rightarrow> 's \<times> pyexc option" where
  "run_statements [] p = (p, None)"
| "run_statements (stmt # rest) p =
     (case stmt p of Inl e \<Rightarrow> (p, Some e) | Inr p' \<Rightarrow> run_statements rest p')"

text \<open>
  The statements shared by \<^verbatim>\<open>plotPressures\<close> and \<^verbatim>\<open>plotCp\<close>; \<open>den\<close> is 1 in the
  former and \<^verbatim>\<open>denominator_cp\<close> in the latter, \<open>scale\<close> the wing scale of the mode.
\<close>

definition set_pressures_top :: "real \<Rightarrow> Plot \<Rightarrow> pyexc + Plot" where
  "set_pressures_top den p =
     exc_bind (attr (Plot.x_coordinates_top p)) (\<lambda>xs.
     exc_bind (bool_index (Plot.pressure_array p) (Plot.mask_top p)) (\<lambda>ps.
     Inr (p\<lparr>line_pressures_top := (xs, map (\<lambda>v. v / den) ps)\<rparr>)))"

definition set_pressures_bottom :: "real \<Rightarrow> Plot \<Rightarrow> pyexc + Plot" where
  "set_pressures_bottom den p =
     exc_bind (attr (Plot.x_coordinates_bottom p)) (\<lambda>xs.
     exc_bind (bool_index (Plot.pressure_array p) (Plot.mask_bottom p)) (\<lambda>ps.
     Inr (p\<lparr>line_pressures_bottom := (xs, map (\<lambda>v. v / den) ps)\<rparr>)))"

definition set_spline_top :: "real \<Rightarrow> Plot \<Rightarrow> pyexc + Plot" where
  "set_spline_top den p =
     exc_bind (attr (x_grid_interpolation p)) (\<lambda>grid.
     exc_bind (attr (Plot.spline_top p)) (\<lambda>spline.
     Inr (p\<lparr>line_spline_top := (grid, map (\<lambda>v. v / den) spline)\<rparr>)))"

definition set_spline_bottom :: "real \<Rightarrow> Plot \<Rightarrow> pyexc + Plot" where
  "set_spline_bottom den p =
     exc_bind (attr (x_grid_interpolation p)) (\<lambda>grid.
     exc_bind (attr (Plot.spline_bottom p)) (\<lambda>spline.
     Inr (p\<lparr>line_spline_bottom := (grid, map (\<lambda>v. v / den) spline)\<rparr>)))"

definition set_wing_top :: "real \<Rightarrow> Plot \<Rightarrow> pyexc + Plot" where
  "set_wing_top scale p =
     (if x_wing_interpolation_top p = [] then Inl IndexError
      else Inr (p\<lparr>line_wing_top :=
                   (map (\<lambda>x. x / last (x_wing_interpolation_top p)) (x_wing_interpolation_top p),
                    map (\<lambda>y. wing_sign p * y * scale) (Plot.y_wing_top p))\<rparr>))"

definition set_wing_bottom :: "real \<Rightarrow> Plot \<Rightarrow> pyexc + Plot" where
  "set_wing_bottom scale p =
     (if x_wing_interpolation_bottom p = [] then Inl IndexError
      else Inr (p\<lparr>line_wing_bottom :=
                   (map (\<lambda>x. x / last (x_wing_interpolation_bottom p))
                      (x_wing_interpolation_bottom p),
                    map (\<lambda>y. wing_sign p * y * scale) (Plot.y_wing_bottom p))\<rparr>))"

definition erase_splines :: "Plot \<Rightarrow> Plot" where
  "erase_splines p = p\<lparr>line_spline_top := ([], []), line_spline_bottom := ([], [])\<rparr>"

definition plotPause :: "Plot \<Rightarrow> Plot \<times> pyexc option" where
  "plotPause p = (p\<lparr>checkboxes_enabled := False\<rparr>, None)"

text \<open>
  \<^verbatim>\<open>plotPressures\<close>: the overlays are drawn when the second check box is set and
  \<^verbatim>\<open>lift_data_available\<close> holds; the LCDs are updated at the end in either case.
\<close>

definition plotPressures :: "Plot \<Rightarrow> Plot \<times> pyexc option" where
  "plotPressures p =
     run_statements
       ([\<lambda>p. Inr (p\<lparr>checkboxes_enabled := True\<rparr>),
         set_pressures_top 1,
         set_pressures_bottom 1]
        @ (if fst (snd (checkbox_tuple p)) = True \<and> lift_data_available p
           then [set_spline_top 1, set_spline_bottom 1,
                 set_wing_top (y_wing_scale_pressures p),
                 set_wing_bottom (y_wing_scale_pressures p)]
           else [\<lambda>p. Inr (erase_splines p)])
        @ [\<lambda>p. Inr (updateDynamicLCDs p)]) p"

text \<open>
  \<^verbatim>\<open>plotCp\<close>: the condition reads the check box only, and the call of
  \<^verbatim>\<open>updateDynamicLCDs\<close> is indented into the \<^verbatim>\<open>else\<close> branch.
\<close>

definition denominator_cp :: "Plot \<Rightarrow> real" where
  "denominator_cp p = 0.5 * (velocity p)\<^sup>2 * density p"

definition plotCp :: "Plot \<Rightarrow> Plot \<times> pyexc option" where
  "plotCp p =
     run_statements
       ([\<lambda>p. Inr (p\<lparr>checkboxes_enabled := True\<rparr>),
         set_pressures_top (denominator_cp p),
         set_pressures_bottom (denominator_cp p)]
        @ (if fst (snd (checkbox_tuple p)) = True
           then [set_spline_top (denominator_cp p), set_spline_bottom (denominator_cp p),
                 set_wing_top (y_wing_scale_cp p),
                 set_wing_bottom (y_wing_scale_cp p)]
           else [\<lambda>p. Inr (erase_splines p), \<lambda>p. Inr (updateDynamicLCDs p)])) p"

text \<open>
  \<^verbatim>\<open>animate\<close>: the dictionary maps every tuple with a set first component to
  \<^verbatim>\<open>plotPause\<close>, and the others to \<^verbatim>\<open>plotCp\<close> or \<^verbatim>\<open>plotPressures\<close> by the third
  component.
\<close>

definition animate :: "Plot \<Rightarrow> Plot \<times> pyexc option" where
  "animate p =
     (case checkbox_tuple p of
        (True, _, _) \<Rightarrow> plotPause p
      | (False, _, True) \<Rightarrow> plotCp p
      | (False, _, False) \<Rightarrow> plotPressures p)"

subsection \<open>pandas operations used by \<^verbatim>\<open>saveData\<close>\<close>

text \<open>
  A CSV file is a header line and data lines of fields.  A field is either a literal text
  or the decimal text that \<^verbatim>\<open>to_csv\<close> writes for a float; the latter is kept as
  the float it denotes, and reading it back gives that float (the real-number model has
  no rounding).  Quoting is not modelled: no text written by \<^verbatim>\<open>saveData\<close> contains
  a comma, a quote or a line break.
\<close>

datatype field = Text string | FloatText real

datatype file_state = Missing | Empty | Csv "string list" "field list list"

text \<open>
  A cell of a DataFrame: a Python object (here always a string, kept as its text), an
  integer, a float or a missing value.
\<close>

datatype cell = StrCell field | IntCell int | FloatCell real | NaN

record dataframe =
  columns :: "string list"
  rows :: "cell list list"

definition is_digit :: "char \<Rightarrow> bool" where
  "is_digit c = (c \<in> set ''0123456789'')"

definition digit_value :: "char \<Rightarrow> nat" where
  "digit_value c =
     (if c = CHR ''1'' then 1 else if c = CHR ''2'' then 2 else if c = CHR ''3'' then 3
      else if c = CHR ''4'' then 4 else if c = CHR ''5'' then 5 else if c = CHR ''6'' then 6
      else if c = CHR ''7'' then 7 else if c = CHR ''8'' then 8 else if c = CHR ''9'' then 9
      else 0)"

definition nat_of_digits :: "string \<Rightarrow> nat" where
  "nat_of_digits s = foldl (\<lambda>n c. 10 * n + digit_value c) 0 s"

fun digits_of_nat :: "nat \<Rightarrow> string" where
  "digits_of_nat n =
     (if n < 10 then [''0123456789'' ! n]
      else digits_of_nat (n div 10) @ [''0123456789'' ! (n mod 10)])"

declare digits_of_nat.simps [simp del]

text \<open>\<^verbatim>\<open>str\<close> of an integer, as \<^verbatim>\<open>to_csv\<close> writes an integer cell.\<close>

definition str_of_int :: "int \<Rightarrow> string" where
  "str_of_int k = (if k < 0 then CHR ''-'' # digits_of_nat (nat (- k)) else digits_of_nat (nat k))"

text \<open>
  The integer denoted by a text of decimal digits with an optional minus sign, when it
  fits into 64 bits; leading zeros do not matter.
\<close>

definition int64_literal :: "field \<Rightarrow> int option" where
  "int64_literal f =
     (case f of
        FloatText r \<Rightarrow> None
      | Text s \<Rightarrow>
          (let digits = (if s \<noteq> [] \<and> hd s = CHR ''-'' then tl s else s);
               k = (if s \<noteq> [] \<and> hd s = CHR ''-'' then - int (nat_of_digits digits)
                    else int (nat_of_digits digits))
           in if digits \<noteq> [] \<and> list_all is_digit digits \<and> - (2 ^ 63) \<le> k \<and> k < 2 ^ 63
              then Some k else None))"

text \<open>A field that \<^verbatim>\<open>read_csv\<close> takes for a number or for a missing value.\<close>

definition float_of_field :: "field \<Rightarrow> cell option" where
  "float_of_field f =
     (case f of
        FloatText r \<Rightarrow> Some (FloatCell r)
      | Text s \<Rightarrow>
          (if s = [] then Some NaN
           else (case int64_literal f of Some k \<Rightarrow> Some (FloatCell (of_int k)) | None \<Rightarrow> None)))"

text \<open>
  The type inference of \<^verbatim>\<open>read_csv\<close> on one column, without a \<^verbatim>\<open>dtype\<close>
  argument: a column of integer literals becomes an integer column, a column of numbers
  and empty fields a float column, and any other column keeps its texts, an empty field
  being a missing value.  Integers beyond 64 bits and the NA markers other than the
  empty field are not modelled.
\<close>

definition infer_column :: "field list \<Rightarrow> cell list" where
  "infer_column fs =
     (if fs \<noteq> [] \<and> list_all (\<lambda>f. int64_literal f \<noteq> None) fs
      then map (\<lambda>f. IntCell (the (int64_literal f))) fs
      else if list_all (\<lambda>f. float_of_field f \<noteq> None) fs
      then map (\<lambda>f. the (float_of_field f)) fs
      else map (\<lambda>f. if f = Text [] then NaN else StrCell f) fs)"

text \<open>Repeated labels of the header line are renamed \<^verbatim>\<open>x\<close>, \<^verbatim>\<open>x.1\<close>, \<^verbatim>\<open>x.2\<close>.\<close>

fun mangle_dupe_cols :: "string list \<Rightarrow> string list \<Rightarrow> string list" where
  "mangle_dupe_cols seen [] = []"
| "mangle_dupe_cols seen (c # cs) =
     (if count_list seen c = 0 then c else c @ ''.'' @ digits_of_nat (count_list seen c))
     # mangle_dupe_cols (seen @ [c]) cs"

text \<open>
  \<^verbatim>\<open>pd.read_csv(path)\<close>.  Only files whose data lines have as many fields as the
  header line are modelled; the others are answered with a parser error.
\<close>

definition read_csv :: "file_state \<Rightarrow> pyexc + dataframe" where
  "read_csv file =
     (case file of
        Missing \<Rightarrow> Inl (Exception ''FileNotFoundError'')
      | Empty \<Rightarrow> Inl EmptyDataError
      | Csv header_line data_lines \<Rightarrow>
          (if list_all (\<lambda>l. length l = length header_line) data_lines
           then
             let cols = map (\<lambda>j. infer_column (map (\<lambda>l. l ! j) data_lines))
                          [0..<length header_line]
             in Inr \<lparr>columns = mangle_dupe_cols [] header_line,
                     rows = map (\<lambda>i. map (\<lambda>col. col ! i) cols) [0..<length data_lines]\<rparr>
           else Inl ParserError))"

definition field_of_cell :: "cell \<Rightarrow> field" where
  "field_of_cell c =
     (case c of
        StrCell f \<Rightarrow> f
      | IntCell k \<Rightarrow> Text (str_of_int k)
      | FloatCell r \<Rightarrow> FloatText r
      | NaN \<Rightarrow> Text [])"

text \<open>\<^verbatim>\<open>df.to_csv(path, index=False)\<close>: the file is replaced.\<close>

definition to_csv :: "dataframe \<Rightarrow> file_state" where
  "to_csv df = Csv (columns df) (map (map field_of_cell) (rows df))"

text \<open>
  \<^verbatim>\<open>pd.concat([a, b], ignore_index=True)\<close>: with equal column labels the rows are
  stacked; otherwise the columns are the labels of \<open>a\<close> followed by the new labels of
  \<open>b\<close>, every row is realigned and a missing cell is NaN, which needs unique labels.
\<close>

definition reindex :: "string list \<Rightarrow> string list \<Rightarrow> cell list \<Rightarrow> cell list" where
  "reindex labels cols row =
     map (\<lambda>c. case map_of (zip labels row) c of None \<Rightarrow> NaN | Some v \<Rightarrow> v) cols"

definition concat :: "dataframe \<Rightarrow> dataframe \<Rightarrow> pyexc + dataframe" where
  "concat a b =
     (if columns a = columns b
      then Inr \<lparr>columns = columns a, rows = rows a @ rows b\<rparr>
      else if distinct (columns a) \<and> distinct (columns b)
      then
        let cols = columns a @ filter (\<lambda>c. c \<notin> set (columns a)) (columns b)
        in Inr \<lparr>columns = cols,
                rows = map (reindex (columns a) cols) (rows a)
                       @ map (reindex (columns b) cols) (rows b)\<rparr>
      else Inl InvalidIndexError)"

text \<open>
  \<^verbatim>\<open>df_new.columns = self.header\<close> on the frame of one row: the header must have
  as many labels as the row has cells.
\<close>

definition set_columns :: "string list \<Rightarrow> cell list \<Rightarrow> pyexc + dataframe" where
  "set_columns header row =
     (if length header = length row then Inr \<lparr>columns = header, rows = [row]\<rparr>
      else Inl ValueError)"

subsection \<open>float64 arithmetic of \<^verbatim>\<open>np.mean\<close>\<close>

text \<open>
  The arrays hold IEEE 754 binary64 numbers, and every addition and division rounds its
  exact result to the nearest of them, a tie going to the even significand.  A finite
  number is modelled by the real it denotes.  \<open>round_half_even\<close> is the rounding of a
  significand to an integer.
\<close>

definition round_half_even :: "real \<Rightarrow> int" where
  "round_half_even x =
     (let f = \<lfloor>x\<rfloor>; d = x - of_int f
      in if d < 1/2 then f else if 1/2 < d then f + 1 else if even f then f else f + 1)"

text \<open>
  \<open>scale_significand\<close> writes a positive real as \<open>m \<sqdot> 2 ^ e\<close> with
  \<open>2 ^ 52 \<le> m < 2 ^ 53\<close>, or with \<open>e = - 1074\<close> and \<open>m < 2 ^ 52\<close> in the
  subnormal range, by doubling or halving \<open>m\<close>; the 2200 steps that \<open>fl64\<close> allows reach this form from every magnitude
  between the smallest subnormal and the largest finite number.  Results beyond the
  largest finite number, infinities, NaN and the sign of zero are outside the model.
\<close>

fun scale_significand :: "nat \<Rightarrow> real \<Rightarrow> int \<Rightarrow> real \<times> int" where
  "scale_significand fuel m e =
     (if fuel = 0 then (m, e)
      else if m < 2 ^ 52 \<and> - 1074 < e then scale_significand (fuel - 1) (2 * m) (e - 1)
      else if 2 ^ 53 \<le> m then scale_significand (fuel - 1) (m / 2) (e + 1)
      else (m, e))"

declare scale_significand.simps [simp del]

definition fl64 :: "real \<Rightarrow> real" where
  "fl64 x =
     (if x = 0 then 0
      else case scale_significand 2200 \<bar>x\<bar> 0 of
             (m, e) \<Rightarrow> sgn x * of_int (round_half_even m) * 2 powi e)"

definition fadd :: "real \<Rightarrow> real \<Rightarrow> real" where
  "fadd x y = fl64 (x + y)"

definition fdiv :: "real \<Rightarrow> real \<Rightarrow> real" where
  "fdiv x y = fl64 (x / y)"

text \<open>
  The sum of a contiguous vector, numpy's pairwise summation: fewer than eight entries
  are added one after the other, starting from zero; up to 128 entries are added in
  eight interleaved partial sums, which are then combined in pairs, and the entries
  after the last full group of eight are added one by one; a longer vector is split at
  a multiple of eight near its middle and the sums of the two parts are added.
\<close>

function pairwise_sum :: "real list \<Rightarrow> real" where
  "pairwise_sum a =
     (if length a < 8 then foldl fadd 0 a
      else if length a \<le> 128 then
        (let full = length a - length a mod 8;
             r = map (\<lambda>k. foldl fadd (a ! k)
                            (map (\<lambda>i. a ! (8 * i + k)) [1..<full div 8])) [0..<8];
             res = fadd (fadd (fadd (r ! 0) (r ! 1)) (fadd (r ! 2) (r ! 3)))
                        (fadd (fadd (r ! 4) (r ! 5)) (fadd (r ! 6) (r ! 7)))
         in foldl fadd res (drop full a))
      else fadd (pairwise_sum (take (length a div 2 - length a div 2 mod 8) a))
                (pairwise_sum (drop (length a div 2 - length a div 2 mod 8) a)))"
  by pat_completeness auto

termination
  by (relation "measure length") auto

declare pairwise_sum.simps [simp del]

subsection \<open>workers.py: class Data\<close>

text \<open>
  The attributes that \<^verbatim>\<open>saveData\<close> reads.  \<^verbatim>\<open>self.path\<close> is \<^verbatim>\<open>None\<close> until
  \<^verbatim>\<open>updatePath\<close> has run, and the setup attributes do not exist before
  \<^verbatim>\<open>updateSetupData\<close>.
\<close>

record Data =
  path :: "string option"
  number_of_measurements :: nat
  angle :: real
  velocity :: real
  width :: real
  header :: "string list"
  lift :: real
  setup_attrs :: "setup_data option"

definition updateLift :: "Data \<Rightarrow> lift_and_splines \<Rightarrow> Data" where
  "updateLift d lift_and_splines = d\<lparr>Data.lift := ls_lift lift_and_splines\<rparr>"

text \<open>
  \<^verbatim>\<open>main.py\<close> connects \<^verbatim>\<open>send_lift_splines_sig\<close> to \<^verbatim>\<open>Data.updateLift\<close> and
  to \<^verbatim>\<open>Plot.updateLiftAndSplines\<close>; a cycle that emits nothing reaches neither.
\<close>

definition send_lift_splines_sig :: "lift_and_splines option \<Rightarrow> Data \<times> Plot \<Rightarrow> Data \<times> Plot" where
  "send_lift_splines_sig emitted receivers =
     (case emitted of
        None \<Rightarrow> receivers
      | Some lift_and_splines \<Rightarrow>
          (updateLift (fst receivers) lift_and_splines,
           updateLiftAndSplines (snd receivers) lift_and_splines))"

text \<open>
  What one pass of the measurement loop meets: the arrays that the two devices (or the
  demo generator) deliver to \<^verbatim>\<open>readData\<close>, or the exception raised on the way, and
  the value that \<^verbatim>\<open>self.lift\<close> holds when it is stored.
\<close>

record sample =
  acquired :: "pyexc + (real list \<times> real list)"
  lift_seen :: real

definition readData :: "pyexc + (real list \<times> real list) \<Rightarrow> pyexc + (real list \<times> real list)" where
  "readData acq =
     (case acq of
        Inl err \<Rightarrow> Inl (Exception ''ERROR in method readData.'')
      | Inr arrays \<Rightarrow> Inr arrays)"

text \<open>
  \<^verbatim>\<open>num[i, :] = arr\<close> for a row of \<open>k\<close> entries: the array must have \<open>k\<close> entries,
  or one entry, which is then repeated.
\<close>

definition store_row :: "nat \<Rightarrow> real list \<Rightarrow> pyexc + real list" where
  "store_row k arr =
     (if length arr = k then Inr arr
      else if length arr = 1 then Inr (replicate k (hd arr))
      else Inl ValueError)"

text \<open>
  The loop of lines 916 to 922 over the samples it meets, giving the filled arrays
  \<^verbatim>\<open>num_pressures\<close>, \<^verbatim>\<open>num_density\<close> and \<^verbatim>\<open>num_lift\<close>.
\<close>

fun take_measurements ::
    "sample list \<Rightarrow> pyexc + (real list list \<times> real list list \<times> real list)" where
  "take_measurements [] = Inr ([], [], [])"
| "take_measurements (s # rest) =
     exc_bind (readData (acquired s)) (\<lambda>(pressure_array, density_array).
     exc_bind (store_row 16 pressure_array) (\<lambda>row_pressures.
     exc_bind (store_row 4 density_array) (\<lambda>row_density.
     exc_bind (take_measurements rest) (\<lambda>(num_pressures, num_density, num_lift).
     Inr (row_pressures # num_pressures, row_density # num_density,
          lift_seen s # num_lift)))))"

text \<open>
  \<^verbatim>\<open>np.mean(m, axis=0)\<close> of a matrix with \<open>k\<close> columns, stored row by row: the rows
  are added one after the other to an accumulator that starts at zero, and each sum is
  divided by the number of rows.  \<^verbatim>\<open>np.mean\<close> of a vector: its pairwise sum is added
  to an accumulator that starts at zero and divided by the number of entries.  For no
  rows numpy gives NaN, which the model does not have.
\<close>

definition mean_axis0 :: "nat \<Rightarrow> real list list \<Rightarrow> real list" where
  "mean_axis0 k m =
     map (\<lambda>j. fdiv (foldl fadd 0 (map (\<lambda>r. r ! j) m)) (real (length m))) [0..<k]"

definition mean :: "real list \<Rightarrow> real" where
  "mean v = fdiv (fadd 0 (pairwise_sum v)) (real (length v))"

definition mask_str :: "bool list \<Rightarrow> string" where
  "mask_str m = map (\<lambda>b. if b then CHR ''1'' else CHR ''0'') m"

text \<open>
  Lines 910 to 964: the means \<open>(pressures_mean, density_mean, lift_mean)\<close> of the
  measurements, and the single row of \<^verbatim>\<open>df_new\<close>.  \<open>samples\<close> are the samples that
  the passes of the loop meet in turn, \<open>now_time\<close> is the formatted time of day and
  \<open>total_time\<close> the measured duration.
\<close>

definition measurement_means ::
    "Data \<Rightarrow> (nat \<Rightarrow> sample) \<Rightarrow> pyexc + (real list \<times> real list \<times> real)" where
  "measurement_means d samples =
     exc_bind (take_measurements (map samples [0..<number_of_measurements d]))
       (\<lambda>(num_pressures, num_density, num_lift).
          Inr (mean_axis0 16 num_pressures, mean_axis0 4 num_density, mean num_lift))"

definition new_row :: "Data \<Rightarrow> string \<Rightarrow> real \<Rightarrow> (nat \<Rightarrow> sample) \<Rightarrow> pyexc + cell list" where
  "new_row d now_time total_time samples =
     exc_bind (measurement_means d samples) (\<lambda>(pressures_mean, density_mean, lift_mean).
     exc_bind (attr (Data.setup_attrs d)) (\<lambda>su.
       Inr ([StrCell (Text now_time)]
            @ map FloatCell density_mean
            @ [FloatCell (Data.angle d), FloatCell (Data.velocity d), FloatCell lift_mean,
               FloatCell (Data.width d), IntCell (int (number_of_measurements d)),
               FloatCell total_time]
            @ map FloatCell pressures_mean
            @ map FloatCell (setup_data.x_coordinates su)
            @ [StrCell (Text (mask_str (setup_data.mask_top su))),
               StrCell (Text (mask_str (setup_data.mask_bottom su)))])))"

text \<open>
  Lines 966 to 974: an existing file is read, the new row is put below its rows and the
  whole frame is written back; otherwise the new row is written with the header.
\<close>

definition write_row :: "string list \<Rightarrow> file_state \<Rightarrow> cell list \<Rightarrow> pyexc + file_state" where
  "write_row hdr file row =
     (if file \<noteq> Missing then
        exc_bind (read_csv file) (\<lambda>df_old.
        exc_bind (set_columns hdr row) (\<lambda>df_new.
        exc_bind (concat df_old df_new) (\<lambda>df_write.
        Inr (to_csv df_write))))
      else
        exc_bind (set_columns hdr row) (\<lambda>df_new.
        Inr (to_csv df_new)))"

text \<open>
  \<^verbatim>\<open>saveData\<close> up to its handler: the file at \<^verbatim>\<open>self.path\<close> afterwards, and the
  exception reported on the info label, if any.
\<close>

definition saveData ::
    "Data \<Rightarrow> string \<Rightarrow> real \<Rightarrow> (nat \<Rightarrow> sample) \<Rightarrow> file_state \<Rightarrow> file_state \<times> pyexc option" where
  "saveData d now_time total_time samples file =
     (case exc_bind (new_row d now_time total_time samples) (\<lambda>row.
           exc_bind (attr (path d)) (\<lambda>p.
           write_row (header d) file row)) of
        Inl err \<Rightarrow> (file, Some err)
      | Inr file' \<Rightarrow> (file', None))"

subsection \<open>windows.py: SetUpWindow.setUp\<close>

text \<open>
  \<^verbatim>\<open>self.x_coordinates\<close> is one numpy array for as long as the window lives:
  \<^verbatim>\<open>setUp\<close> writes the values of the spin boxes into it, emits the array itself with
  \<^verbatim>\<open>update_sig\<close>, and every worker keeps the object it receives.  The arrays of
  coordinates therefore live in a store: a reference names an array, and the store
  gives the present contents of the array.  The two masks are new arrays at every call
  and the selections \<^verbatim>\<open>x_coordinates[mask]\<close> are copies, so these are carried by
  value.
\<close>

type_synonym ref = nat

type_synonym heap = "ref \<Rightarrow> real list"

text \<open>
  The state of the widgets (whether each check box is checked, the value of each spin
  box), the three arrays of the window, of which the status and the colour code are read
  as booleans, and how the attempt to connect the devices ends when it is made.
\<close>

datatype connect_outcome = Connected | ConstructorFailed | FirstReadFailed

record SetUpWindow =
  checkbox_list :: "bool list"
  spinbox_list :: "real list"
  checkbox_color_list :: "bool list"
  x_coordinates_status :: "bool list"
  color_code :: "bool list"
  x_coordinates :: ref
  demo_mode :: bool

datatype signal =
    Update_sig "bool list" "bool list" ref
  | Path_name_sig
  | Send_serial_connections_sig
  | Switch_plot_button_sig bool
  | ShowWarning string

text \<open>
  A loop \<^verbatim>\<open>for i, widget in enumerate(widgets): arr[i] = value\<close> of lines 145 to
  160: the entries of the array are overwritten in place, one after the other.  When
  there are more widgets than entries, the loop raises \<^verbatim>\<open>IndexError\<close> after it has
  overwritten every entry.
\<close>

definition assign_items :: "'a list \<Rightarrow> 'a list \<Rightarrow> 'a list" where
  "assign_items arr vals = take (length arr) vals @ drop (length vals) arr"

text \<open>An elementwise operation on two arrays, with numpy's broadcasting of one entry.\<close>

definition broadcast2 :: "('a \<Rightarrow> 'b \<Rightarrow> 'c) \<Rightarrow> 'a list \<Rightarrow> 'b list \<Rightarrow> pyexc + 'c list" where
  "broadcast2 f xs ys =
     (if length xs = length ys then Inr (map2 f xs ys)
      else if length xs = 1 then Inr (map (f (hd xs)) ys)
      else if length ys = 1 then Inr (map (\<lambda>x. f x (hd ys)) xs)
      else Inl ValueError)"

text \<open>
  \<^verbatim>\<open>np.unique(a, return_index=True)[1]\<close>: for each distinct value, in ascending
  order, the index of its first occurrence.
\<close>

definition first_index :: "real list \<Rightarrow> real \<Rightarrow> nat" where
  "first_index xs v = length (takeWhile (\<lambda>x. x \<noteq> v) xs)"

definition unique_indices :: "real list \<Rightarrow> nat list" where
  "unique_indices xs = map (first_index xs) (sort (remdups xs))"

text \<open>
  \<^verbatim>\<open>np.setdiff1d(np.arange(len(a)), unique_indices)\<close>, and \<^verbatim>\<open>.any()\<close> of an array
  of indices, which asks for a nonzero entry.
\<close>

definition duplicate_indices :: "real list \<Rightarrow> nat list" where
  "duplicate_indices xs = filter (\<lambda>i. i \<notin> set (unique_indices xs)) [0..<length xs]"

definition any_nonzero :: "nat list \<Rightarrow> bool" where
  "any_nonzero idx = list_ex (\<lambda>i. i \<noteq> 0) idx"

text \<open>
  Lines 166 to 247 of \<^verbatim>\<open>setUp\<close>, which read the arrays that the loops have filled:
  the signals emitted and the warnings shown, in order.  \<^verbatim>\<open>update_sig\<close> carries the
  two masks and the reference of the array of coordinates.
\<close>

definition check_and_emit :: "heap \<Rightarrow> SetUpWindow \<Rightarrow> connect_outcome \<Rightarrow> pyexc + signal list" where
  "check_and_emit h w outcome =
     exc_bind (broadcast2 (\<and>) (x_coordinates_status w) (color_code w)) (\<lambda>mask_top.
     exc_bind (broadcast2 (\<and>) (x_coordinates_status w) (map Not (color_code w)))
       (\<lambda>mask_bottom.
     exc_bind (bool_index (h (SetUpWindow.x_coordinates w)) mask_top) (\<lambda>coordinates_top.
     exc_bind (bool_index (h (SetUpWindow.x_coordinates w)) mask_bottom)
       (\<lambda>coordinates_bottom.
       let duplicate_indices_top = duplicate_indices coordinates_top;
           duplicate_indices_bottom = duplicate_indices coordinates_bottom;
           min_length_ok =
             (\<not> (length (filter id mask_top) < 2 \<or> length (filter id mask_bottom) < 2))
       in Inr
         ((if \<not> min_length_ok
           then [ShowWarning ''Top and bottom need at least two points for interpolation.'',
                 Switch_plot_button_sig False]
           else [])
          @ (if any_nonzero duplicate_indices_top \<or> any_nonzero duplicate_indices_bottom
             then [ShowWarning ''Please check for duplicates.'', Switch_plot_button_sig False]
             else [])
          @ (if \<not> any_nonzero duplicate_indices_top \<and> \<not> any_nonzero duplicate_indices_bottom
                \<and> min_length_ok = True
             then [Update_sig mask_top mask_bottom (SetUpWindow.x_coordinates w),
                   Path_name_sig]
                  @ (if demo_mode w then [Switch_plot_button_sig True]
                     else (case outcome of
                             Connected \<Rightarrow>
                               [Send_serial_connections_sig, Switch_plot_button_sig True]
                           | FirstReadFailed \<Rightarrow>
                               [Send_serial_connections_sig, Switch_plot_button_sig True,
                                ShowWarning ''Could not connect devices.'',
                                Switch_plot_button_sig False]
                           | ConstructorFailed \<Rightarrow>
                               [ShowWarning ''Could not connect devices.'',
                                Switch_plot_button_sig False]))
             else []))))))"

text \<open>
  \<^verbatim>\<open>setUp\<close>: the store and the window afterwards, and the signals and warnings, or
  the exception raised.  The three loops come first, so the values of the spin boxes
  are in the array of coordinates before anything is checked, and they stay there
  whatever the checks find.
\<close>

definition setUp ::
    "heap \<Rightarrow> SetUpWindow \<Rightarrow> connect_outcome \<Rightarrow> heap \<times> SetUpWindow \<times> (pyexc + signal list)" where
  "setUp h w outcome =
     (let w1 = w\<lparr>x_coordinates_status :=
                   assign_items (x_coordinates_status w) (checkbox_list w)\<rparr>
      in if length (x_coordinates_status w) < length (checkbox_list w)
         then (h, w1, Inl IndexError)
         else
           let h1 = h(SetUpWindow.x_coordinates w :=
                        assign_items (h (SetUpWindow.x_coordinates w)) (spinbox_list w))
           in if length (h (SetUpWindow.x_coordinates w)) < length (spinbox_list w)
              then (h1, w1, Inl IndexError)
              else
                let w2 = w1\<lparr>color_code :=
                              assign_items (color_code w) (checkbox_color_list w)\<rparr>
                in if length (color_code w) < length (checkbox_color_list w)
                   then (h1, w2, Inl IndexError)
                   else (h1, w2, check_and_emit h1 w2 outcome))"

text \<open>
  \<^verbatim>\<open>Data.updateSetupData\<close> (workers.py, lines 843 to 850), the slot of
  \<^verbatim>\<open>update_sig\<close> in the acquisition task: the worker keeps the two masks and the
  array it is sent, and copies the selected coordinates.  If an indexing raises, the
  attributes assigned so far keep their new values and the remaining ones their old
  state.
\<close>

record kept_setup =
  kept_mask_top :: "bool list"
  kept_mask_bottom :: "bool list"
  kept_x_coordinates :: ref
  kept_x_coordinates_top :: "real list"
  kept_x_coordinates_bottom :: "real list"

definition Data_updateSetupData ::
    "heap \<Rightarrow> kept_setup option \<Rightarrow> bool list \<times> bool list \<times> ref \<Rightarrow> kept_setup option" where
  "Data_updateSetupData h kept setup_data =
     (let mt = fst setup_data; mb = fst (snd setup_data); xs = snd (snd setup_data);
          assigned = (\<lambda>k. k\<lparr>kept_mask_top := mt, kept_mask_bottom := mb,
                               kept_x_coordinates := xs\<rparr>)
      in case bool_index (h xs) mt of
           Inl err \<Rightarrow> map_option assigned kept
         | Inr xt \<Rightarrow>
             (case bool_index (h xs) mb of
                Inl err \<Rightarrow> map_option (\<lambda>k. (assigned k)\<lparr>kept_x_coordinates_top := xt\<rparr>) kept
              | Inr xb \<Rightarrow>
                  Some \<lparr>kept_mask_top = mt, kept_mask_bottom = mb, kept_x_coordinates = xs,
                        kept_x_coordinates_top = xt, kept_x_coordinates_bottom = xb\<rparr>))"

text \<open>
  The signals of one run of \<^verbatim>\<open>setUp\<close> as they reach the acquisition task: only
  \<^verbatim>\<open>update_sig\<close> is connected to \<^verbatim>\<open>updateSetupData\<close>, and a run that raised has
  emitted nothing.
\<close>

fun Data_receive :: "heap \<Rightarrow> kept_setup option \<Rightarrow> signal \<Rightarrow> kept_setup option" where
  "Data_receive h kept (Update_sig mt mb xs) = Data_updateSetupData h kept (mt, mb, xs)"
| "Data_receive h kept Path_name_sig = kept"
| "Data_receive h kept Send_serial_connections_sig = kept"
| "Data_receive h kept (Switch_plot_button_sig b) = kept"
| "Data_receive h kept (ShowWarning message) = kept"

definition Data_deliver ::
    "heap \<Rightarrow> kept_setup option \<Rightarrow> pyexc + signal list \<Rightarrow> kept_setup option" where
  "Data_deliver h kept emitted =
     (case emitted of Inl err \<Rightarrow> kept | Inr sigs \<Rightarrow> foldl (Data_receive h) kept sigs)"

text \<open>
  \<^verbatim>\<open>saveData\<close> evaluates \<^verbatim>\<open>self.mask_top\<close>, \<^verbatim>\<open>self.mask_bottom\<close> and
  \<^verbatim>\<open>self.x_coordinates\<close> when it assembles its row (lines 948 to 951): the values
  of the setup attributes of the acquisition task at a store, and the \<^verbatim>\<open>Data\<close>
  object with these values.
\<close>

definition setup_attrs_at :: "heap \<Rightarrow> kept_setup option \<Rightarrow> setup_data option" where
  "setup_attrs_at h kept =
     map_option
       (\<lambda>k. \<lparr>setup_data.mask_top = kept_mask_top k,
              setup_data.mask_bottom = kept_mask_bottom k,
              setup_data.x_coordinates = h (kept_x_coordinates k),
              setup_data.x_coordinates_top = kept_x_coordinates_top k,
              setup_data.x_coordinates_bottom = kept_x_coordinates_bottom k\<rparr>) kept"

definition Data_at :: "heap \<Rightarrow> kept_setup option \<Rightarrow> Data \<Rightarrow> Data" where
  "Data_at h kept d = d\<lparr>Data.setup_attrs := setup_attrs_at h kept\<rparr>"

subsection \<open>The panel-integration formula of the specification\<close>

text \<open>
  Written from the words of the specification, to be compared with \<open>lift_top\<close> and
  \<open>lift_bottom\<close>: panel \<open>i\<close> lies between grid points \<open>i\<close> and \<open>i + 1\<close>, has chordwise
  length \<open>\<Delta>x \<sqdot> chord_length\<close>, rise \<open>\<Delta>y\<close>, inclination \<open>atan (\<Delta>y / \<Delta>x)\<close>, area
  \<open>width \<sqdot> \<Delta>x / cos \<alpha>\<close> and normal component \<open>sgn \<sqdot> cos \<alpha>\<close> (\<open>sgn = -1\<close> on the top
  surface, \<open>+1\<close> on the bottom); its term is area times normal component times the
  pressure at grid index \<open>i + 1\<close>.
\<close>

definition spec_panel_term ::
    "real \<Rightarrow> real \<Rightarrow> real \<Rightarrow> real list \<Rightarrow> real list \<Rightarrow> real list \<Rightarrow> nat \<Rightarrow> real" where
  "spec_panel_term s w chord xs ys ps i =
     (let dx = (xs ! Suc i - xs ! i) * chord;
          dy = ys ! Suc i - ys ! i;
          alpha = arctan (dy / dx);
          area = w * dx / cos alpha;
          normal_y = s * cos alpha
      in area * normal_y * ps ! Suc i)"

definition spec_lift ::
    "real \<Rightarrow> real \<Rightarrow> real \<Rightarrow> real list \<Rightarrow> real list \<Rightarrow> real list
      \<Rightarrow> real list \<Rightarrow> real list \<Rightarrow> real list \<Rightarrow> real" where
  "spec_lift w chord angle_of_attack x_top y_top p_top x_bottom y_bottom p_bottom =
     ((\<Sum>i<length x_top - 1. spec_panel_term (- 1) w chord x_top y_top p_top i)
      + (\<Sum>i<length x_bottom - 1. spec_panel_term 1 w chord x_bottom y_bottom p_bottom i))
     * cos angle_of_attack"

subsection \<open>Concrete inputs\<close>

text \<open>
  A stand-in for the interpolator argument, used to run the pipeline on concrete inputs:
  it rejects fewer than two knots, lists of different lengths and abscissae that are not
  strictly increasing, and otherwise joins the knots by straight lines.  The examples
  below sample it at knots only, where every interpolant through the knots agrees.
\<close>

fun piecewise_linear :: "(real \<times> real) list \<Rightarrow> real \<Rightarrow> real" where
  "piecewise_linear [] x = 0"
| "piecewise_linear [(x0, y0)] x = y0"
| "piecewise_linear ((x0, y0) # (x1, y1) # rest) x =
     (if x \<le> x0 then y0
      else if x \<le> x1 then y0 + (y1 - y0) * (x - x0) / (x1 - x0)
      else piecewise_linear ((x1, y1) # rest) x)"

definition knot_interpolator :: interpolator where
  "knot_interpolator xs ys =
     (if length xs < 2 \<or> length xs \<noteq> length ys \<or> \<not> sorted_wrt (<) xs then Inl ValueError
      else Inr (piecewise_linear (zip xs ys)))"

text \<open>
  Sixteen taps, of which taps 0 to 2 are active on the top surface (coordinates
  0.1, 0.3, 0.6, pressures 5, 3, 1) and taps 3 and 4 on the bottom surface (coordinates
  0.2, 0.7, pressures 2, 4); a wing given by three points per surface; a grid of two
  points.
\<close>

definition example_setup :: setup_data where
  "example_setup =
     \<lparr>setup_data.mask_top =
        [True, True, True, False, False, False, False, False,
         False, False, False, False, False, False, False, False],
      setup_data.mask_bottom =
        [False, False, False, True, True, False, False, False,
         False, False, False, False, False, False, False, False],
      setup_data.x_coordinates =
        [1/10, 3/10, 6/10, 2/10, 7/10, 0, 0, 0, 0, 0, 0, 0, 0, 0, 0, 0],
      setup_data.x_coordinates_top = [1/10, 3/10, 6/10],
      setup_data.x_coordinates_bottom = [2/10, 7/10]\<rparr>"

definition example_calculations :: Calculations where
  "example_calculations =
     \<lparr>Calculations.pressure_array = [5, 3, 1, 2, 4, 0, 0, 0, 0, 0, 0, 0, 0, 0, 0, 0],
      Calculations.setup_attrs = Some example_setup,
      Calculations.angle = 0,
      Calculations.width = 1,
      Calculations.chord_length = 1,
      Calculations.x_wing_top = [0, 1/2, 1],
      Calculations.x_wing_bottom = [0, 1/2, 1],
      Calculations.y_wing_top = [0, 1/10, 0],
      Calculations.y_wing_bottom = [0, - 1/10, 0],
      Calculations.number_of_interpolated_points = 2,
      Calculations.spline_top = [0, 0],
      Calculations.spline_bottom = [0, 0],
      Calculations.lift = None\<rparr>"

definition example_result :: lift_and_splines where
  "example_result =
     \<lparr>ls_lift = - 21/5, ls_spline_top = [0, 1], ls_spline_bottom = [0, 26/5],
      ls_x_grid_interpolation = [0, 1], ls_y_wing_top = [0, 0], ls_y_wing_bottom = [0, 0],
      ls_x_wing_interpolation_top = [0, 1], ls_x_wing_interpolation_bottom = [0, 1],
      ls_lift_data_available = True\<rparr>"

text \<open>
  The object after the example run has emitted its result and a reading of three values
  has then been stored by \<^verbatim>\<open>updateData\<close>.
\<close>

definition example_short_reading :: Calculations where
  "example_short_reading =
     run_slots knot_interpolator
       (fst (calculateLiftAndSplines knot_interpolator example_calculations))
       [UpdateData [1, 2, 3]]"

text \<open>
  The plot object after the setup of the example and before any result has arrived, in
  the coefficient view with the spline overlay switched on; the same object with the
  overlay switched off; and the object after the result of the example run has arrived.
\<close>

definition example_plot :: Plot where
  "example_plot =
     \<lparr>Plot.velocity = 10,
      Plot.lift = 3,
      Plot.pressure_array = [5, 3, 1, 2, 4, 0, 0, 0, 0, 0, 0, 0, 0, 0, 0, 0],
      Plot.mask_top = setup_data.mask_top example_setup,
      Plot.mask_bottom = setup_data.mask_bottom example_setup,
      Plot.x_coordinates_top = Some [1/10, 3/10, 6/10],
      Plot.x_coordinates_bottom = Some [2/10, 7/10],
      Plot.checkbox_tuple = (False, True, True),
      Plot.temperature = 21,
      Plot.p_amb = 1013,
      Plot.humidity = 40,
      Plot.density = 6/5,
      Plot.y_wing_scale_pressures = 1000,
      Plot.y_wing_scale_cp = 1,
      Plot.wing_sign = 1,
      Plot.x_wing_interpolation_top = [],
      Plot.x_wing_interpolation_bottom = [],
      Plot.y_wing_top = [],
      Plot.y_wing_bottom = [],
      Plot.lift_data_available = False,
      Plot.x_grid_interpolation = None,
      Plot.spline_top = None,
      Plot.spline_bottom = None,
      Plot.line_pressures_top = ([], []),
      Plot.line_pressures_bottom = ([], []),
      Plot.line_spline_top = ([], []),
      Plot.line_spline_bottom = ([], []),
      Plot.line_wing_top = ([], []),
      Plot.line_wing_bottom = ([], []),
      Plot.temp_lcd = Fixed 2 0,
      Plot.p_amb_lcd = Fixed 2 0,
      Plot.hum_lcd = Fixed 1 0,
      Plot.dens_lcd = Fixed 2 0,
      Plot.lift_top_lcd = Fixed 2 0,
      Plot.lift_bottom_lcd = Fixed 2 0,
      Plot.checkboxes_enabled = True\<rparr>"

definition example_plot_cp :: Plot where
  "example_plot_cp = example_plot\<lparr>checkbox_tuple := (False, False, True)\<rparr>"

definition example_plot_cp_splines :: Plot where
  "example_plot_cp_splines = updateLiftAndSplines example_plot example_result"

text \<open>
  A header of 45 distinct labels, a \<^verbatim>\<open>Data\<close> object that averages one measurement,
  samples that all deliver the reading of the example, and the files after a first save
  at 12:00:00 into a path without a file and after a second save at 12:05:00.
\<close>

definition example_header :: "string list" where
  "example_header =
     [''time'', ''temperature'', ''p_amb'', ''humidity'', ''density'', ''angle'',
     ''velocity'', ''lift'', ''width'', ''n'', ''total_time'', ''p1'', ''p2'', ''p3'',
     ''p4'', ''p5'', ''p6'', ''p7'', ''p8'', ''p9'', ''p10'', ''p11'', ''p12'', ''p13'',
     ''p14'', ''p15'', ''p16'', ''x1'', ''x2'', ''x3'', ''x4'', ''x5'', ''x6'', ''x7'',
     ''x8'', ''x9'', ''x10'', ''x11'', ''x12'', ''x13'', ''x14'', ''x15'', ''x16'',
     ''mask_top'', ''mask_bottom'']"

definition example_data :: Data where
  "example_data =
     \<lparr>Data.path = Some ''Data/run.csv'',
      Data.number_of_measurements = 1,
      Data.angle = 5,
      Data.velocity = 10,
      Data.width = 1/2,
      Data.header = example_header,
      Data.lift = 3,
      Data.setup_attrs = Some example_setup\<rparr>"

definition example_samples :: "nat \<Rightarrow> sample" where
  "example_samples i =
     \<lparr>acquired = Inr ([5, 3, 1, 2, 4, 0, 0, 0, 0, 0, 0, 0, 0, 0, 0, 0], [21, 1013, 40, 5/4]),
      lift_seen = 3\<rparr>"



definition example_file_1 :: file_state where
  "example_file_1 =
     Csv example_header
       [[Text ''12:00:00'', FloatText 21, FloatText 1013, FloatText 40, FloatText (5/4),
        FloatText 5, FloatText 10, FloatText 3, FloatText (1/2), Text ''1'', FloatText 2,
        FloatText 5, FloatText 3, FloatText 1, FloatText 2, FloatText 4, FloatText 0,
        FloatText 0, FloatText 0, FloatText 0, FloatText 0, FloatText 0, FloatText 0,
        FloatText 0, FloatText 0, FloatText 0, FloatText 0, FloatText (1/10), FloatText
        (3/10), FloatText (6/10), FloatText (2/10), FloatText (7/10), FloatText 0, FloatText
        0, FloatText 0, FloatText 0, FloatText 0, FloatText 0, FloatText 0, FloatText 0,
        FloatText 0, FloatText 0, FloatText 0, Text ''1110000000000000'', Text
        ''0001100000000000'']]"

definition example_file_2 :: file_state where
  "example_file_2 =
     Csv example_header
       [[Text ''12:00:00'', FloatText 21, FloatText 1013, FloatText 40, FloatText (5/4),
        FloatText 5, FloatText 10, FloatText 3, FloatText (1/2), Text ''1'', FloatText 2,
        FloatText 5, FloatText 3, FloatText 1, FloatText 2, FloatText 4, FloatText 0,
        FloatText 0, FloatText 0, FloatText 0, FloatText 0, FloatText 0, FloatText 0,
        FloatText 0, FloatText 0, FloatText 0, FloatText 0, FloatText (1/10), FloatText
        (3/10), FloatText (6/10), FloatText (2/10), FloatText (7/10), FloatText 0, FloatText
        0, FloatText 0, FloatText 0, FloatText 0, FloatText 0, FloatText 0, FloatText 0,
        FloatText 0, FloatText 0, FloatText 0, Text ''1110000000000000'', Text
        ''1100000000000''],
        [Text ''12:05:00'', FloatText 21, FloatText 1013, FloatText 40, FloatText (5/4),
        FloatText 5, FloatText 10, FloatText 3, FloatText (1/2), Text ''1'', FloatText 3,
        FloatText 5, FloatText 3, FloatText 1, FloatText 2, FloatText 4, FloatText 0,
        FloatText 0, FloatText 0, FloatText 0, FloatText 0, FloatText 0, FloatText 0,
        FloatText 0, FloatText 0, FloatText 0, FloatText 0, FloatText (1/10), FloatText
        (3/10), FloatText (6/10), FloatText (2/10), FloatText (7/10), FloatText 0, FloatText
        0, FloatText 0, FloatText 0, FloatText 0, FloatText 0, FloatText 0, FloatText 0,
        FloatText 0, FloatText 0, FloatText 0, Text ''1110000000000000'', Text
        ''0001100000000000'']]"

text \<open>
  The setup window in demo mode, with arrays of sixteen entries still at zero and the
  widgets set to the taps of the example; its array of coordinates is array 0 of a
  store.  \<open>accepted_run\<close> is the run of \<^verbatim>\<open>setUp\<close> on this window.  The user then
  sets spin box 2 to the value of spin box 0, both on the top surface, and
  \<open>rejected_run\<close> is the run of \<^verbatim>\<open>setUp\<close> that follows.  \<open>kept_after_accepted\<close> and
  \<open>kept_after_rejected\<close> are the setup attributes of the acquisition task after
  each run, and \<open>Data_after_rejected\<close> is the \<^verbatim>\<open>Data\<close> object of the example as a
  save finds it after the second run.
\<close>

definition example_heap :: heap where
  "example_heap r = replicate 16 0"

definition example_window :: SetUpWindow where
  "example_window =
     \<lparr>checkbox_list =
        [True, True, True, True, True, False, False, False,
         False, False, False, False, False, False, False, False],
      spinbox_list =
        [1/10, 3/10, 6/10, 2/10, 7/10, 0, 0, 0, 0, 0, 0, 0, 0, 0, 0, 0],
      checkbox_color_list =
        [True, True, True, False, False, False, False, False,
         False, False, False, False, False, False, False, False],
      x_coordinates_status = replicate 16 False,
      color_code = replicate 16 False,
      SetUpWindow.x_coordinates = 0,
      demo_mode = True\<rparr>"

definition accepted_run :: "heap \<times> SetUpWindow \<times> (pyexc + signal list)" where
  "accepted_run = setUp example_heap example_window Connected"

definition kept_after_accepted :: "kept_setup option" where
  "kept_after_accepted = Data_deliver (fst accepted_run) None (snd (snd accepted_run))"

definition example_window_duplicate :: SetUpWindow where
  "example_window_duplicate =
     (fst (snd accepted_run))\<lparr>spinbox_list :=
        [1/10, 3/10, 1/10, 2/10, 7/10, 0, 0, 0, 0, 0, 0, 0, 0, 0, 0, 0]\<rparr>"

definition rejected_run :: "heap \<times> SetUpWindow \<times> (pyexc + signal list)" where
  "rejected_run = setUp (fst accepted_run) example_window_duplicate Connected"

definition kept_after_rejected :: "kept_setup option" where
  "kept_after_rejected =
     Data_deliver (fst rejected_run) kept_after_accepted (snd (snd rejected_run))"

definition Data_after_rejected :: Data where
  "Data_after_rejected = Data_at (fst rejected_run) kept_after_rejected example_data"

section \<open>Auxiliary facts\<close>

subsection \<open>Evaluation of the example\<close>

lemma length_linspace [simp]: "length (linspace a b n) = n"
  by (simp add: linspace_def)

lemma length_diff [simp]: "length (diff xs) = length xs - 1"
  by (simp add: diff_def)

lemma nth_diff: "Suc i < length xs \<Longrightarrow> diff xs ! i = xs ! Suc i - xs ! i"
  by (simp add: diff_def nth_tl)

lemma sum_list_nth_lessThan: "sum_list xs = (\<Sum>i<length xs. xs ! i)"
  by (simp add: sum_list_sum_nth atLeast0LessThan)

lemma linspace_two: "linspace a b 2 = [a, b]"
  by (simp add: linspace_def upt_rec)

lemma example_extended_knots:
  "extended_knots example_calculations =
     Inr (([0, 1/10, 3/10, 6/10, 1], [0, 5, 3, 1, 1]), ([0, 2/10, 7/10, 1], [0, 2, 4, 26/5]))"
  by (simp add: extended_knots_def example_calculations_def example_setup_def exc_bind_def
      bool_index_def lexsort2_def append_trailing_top_def append_trailing_bottom_def
      prepend_leading_def Let_def)

lemma example_points:
  "number_of_interpolated_points example_calculations = 2"
  by (simp add: example_calculations_def)

lemma example_interpolate_pressures:
  "interpolate_pressures knot_interpolator example_calculations = Inr ([0, 1], [0, 1], [0, 26/5])"
  unfolding interpolate_pressures_def example_extended_knots example_points
  by (simp add: exc_bind_def linspace_two knot_interpolator_def Let_def)

lemma example_wing_and_lift:
  "wing_and_lift knot_interpolator
     (example_calculations\<lparr>Calculations.spline_top := [0, 1],
                            Calculations.spline_bottom := [0, 26/5]\<rparr>) [0, 1] [0, 26/5]
   = Inr (- 21/5, [0, 0], [0, 0], [0, 1], [0, 1])"
  by (simp add: wing_and_lift_def example_calculations_def linspace_two knot_interpolator_def
       exc_bind_def lift_top_def lift_bottom_def diff_def deg2rad_def Let_def)

lemma example_calculateLiftAndSplines:
  "calculateLiftAndSplines knot_interpolator example_calculations =
     (example_calculations\<lparr>Calculations.spline_top := [0, 1],
                            Calculations.spline_bottom := [0, 26/5],
                            Calculations.lift := Some (- 21/5)\<rparr>,
      Some example_result, None)"
  unfolding calculateLiftAndSplines_def example_interpolate_pressures
  by (simp add: example_wing_and_lift Let_def example_result_def)

lemma example_spec_lift:
  "spec_lift 1 1 (deg2rad 0) [0, 1] [0, 0] [0, 1] [0, 1] [0, 0] [0, 26/5] = 21/5"
  by (simp add: spec_lift_def spec_panel_term_def deg2rad_def lessThan_Suc)

subsection \<open>Panel sums\<close>

lemma lift_top_sum:
  assumes "length ys = length xs" and "length ps = length xs"
  shows "lift_top w chord xs ys ps =
           - (\<Sum>i<length xs - 1. spec_panel_term (- 1) w chord xs ys ps i)"
proof -
  let ?alpha = "map2 (\<lambda>dy dx. arctan (dy / dx)) (diff ys) (diff (map (\<lambda>x. x * chord) xs))"
  let ?terms = "map2 (*) (map2 (*) (map (\<lambda>p. - 1 * p) (tl ps)) (map (\<lambda>a. - 1 * cos a) ?alpha))
                  (map2 (\<lambda>dx a. w * (dx / cos a)) (diff (map (\<lambda>x. x * chord) xs)) ?alpha)"
  have len: "length ?terms = length xs - 1"
    using assms by simp
  have "lift_top w chord xs ys ps = (\<Sum>i<length xs - 1. ?terms ! i)"
    unfolding lift_top_def Let_def sum_list_nth_lessThan len ..
  also have "\<dots> = (\<Sum>i<length xs - 1. - spec_panel_term (- 1) w chord xs ys ps i)"
  proof (rule sum.cong)
    fix i assume "i \<in> {..<length xs - 1}"
    then have "Suc i < length xs" by simp
    then show "?terms ! i = - spec_panel_term (- 1) w chord xs ys ps i"
      using assms
      by (simp add: nth_diff nth_tl spec_panel_term_def Let_def left_diff_distrib)
  qed simp
  finally show ?thesis by (simp add: sum_negf)
qed

lemma lift_bottom_sum:
  assumes "length ys = length xs" and "length ps = length xs"
  shows "lift_bottom w chord xs ys ps =
           - (\<Sum>i<length xs - 1. spec_panel_term 1 w chord xs ys ps i)"
proof -
  let ?alpha = "map2 (\<lambda>dy dx. arctan (dy / dx)) (diff ys) (diff (map (\<lambda>x. x * chord) xs))"
  let ?terms = "map2 (*) (map2 (*) (map (\<lambda>p. - 1 * p) (tl ps)) (map (\<lambda>a. cos a) ?alpha))
                  (map2 (\<lambda>dx a. w * (dx / cos a)) (diff (map (\<lambda>x. x * chord) xs)) ?alpha)"
  have len: "length ?terms = length xs - 1"
    using assms by simp
  have "lift_bottom w chord xs ys ps = (\<Sum>i<length xs - 1. ?terms ! i)"
    unfolding lift_bottom_def Let_def sum_list_nth_lessThan len ..
  also have "\<dots> = (\<Sum>i<length xs - 1. - spec_panel_term 1 w chord xs ys ps i)"
  proof (rule sum.cong)
    fix i assume "i \<in> {..<length xs - 1}"
    then have "Suc i < length xs" by simp
    then show "?terms ! i = - spec_panel_term 1 w chord xs ys ps i"
      using assms
      by (simp add: nth_diff nth_tl spec_panel_term_def Let_def left_diff_distrib)
  qed simp
  finally show ?thesis by (simp add: sum_negf)
qed

lemma interpolate_pressures_Inr:
  assumes "interpolate_pressures akima c = Inr (grid, p_top, p_bottom)"
  shows "length p_top = number_of_interpolated_points c"
    and "length p_bottom = number_of_interpolated_points c"
    and "grid = linspace 0 1 (number_of_interpolated_points c)"
  using assms
  by (auto simp: interpolate_pressures_def exc_bind_def Let_def split: sum.splits prod.splits)

lemma wing_and_lift_Inr:
  assumes "wing_and_lift akima c p_top p_bottom = Inr (l, y_top, y_bottom, xw_top, xw_bottom)"
  shows "length xw_top = number_of_interpolated_points c"
    and "length xw_bottom = number_of_interpolated_points c"
    and "length y_top = number_of_interpolated_points c"
    and "length y_bottom = number_of_interpolated_points c"
    and "l = (lift_top (Calculations.width c) (chord_length c) xw_top y_top p_top
              + lift_bottom (Calculations.width c) (chord_length c) xw_bottom y_bottom p_bottom)
             * cos (deg2rad (Calculations.angle c))"
  using assms
  by (auto simp: wing_and_lift_def exc_bind_def Let_def split: sum.splits if_splits)

lemma calculateLiftAndSplines_emitted:
  assumes "calculateLiftAndSplines akima c = (c', Some r, e)"
  obtains grid p_top p_bottom l y_top y_bottom xw_top xw_bottom where
    "interpolate_pressures akima c = Inr (grid, p_top, p_bottom)"
    "wing_and_lift akima (c\<lparr>Calculations.spline_top := p_top,
                            Calculations.spline_bottom := p_bottom\<rparr>) p_top p_bottom
       = Inr (l, y_top, y_bottom, xw_top, xw_bottom)"
    "r = \<lparr>ls_lift = l, ls_spline_top = p_top, ls_spline_bottom = p_bottom,
          ls_x_grid_interpolation = grid, ls_y_wing_top = y_top, ls_y_wing_bottom = y_bottom,
          ls_x_wing_interpolation_top = xw_top, ls_x_wing_interpolation_bottom = xw_bottom,
          ls_lift_data_available = True\<rparr>"
    "e = None"
    "c' = c\<lparr>Calculations.spline_top := p_top, Calculations.spline_bottom := p_bottom,
            Calculations.lift := Some l\<rparr>"
  using assms
  by (auto simp: calculateLiftAndSplines_def Let_def split: sum.splits prod.splits)

subsection \<open>Failed cycles\<close>

lemma wing_and_lift_raises_iff:
  "(\<exists>err. wing_and_lift akima c p q = Inl err) \<longleftrightarrow>
     (x_wing_top c = [] \<or> x_wing_bottom c = [] \<or>
      (\<exists>err. akima (x_wing_top c) (Calculations.y_wing_top c) = Inl err) \<or>
      (\<exists>err. akima (x_wing_bottom c) (Calculations.y_wing_bottom c) = Inl err))"
  by (auto simp: wing_and_lift_def exc_bind_def Let_def split: sum.splits)

lemma wing_and_lift_raises_cong:
  assumes "wing_fields c = wing_fields c0"
  shows "(\<exists>err. wing_and_lift akima c p q = Inl err) \<longleftrightarrow>
         (\<exists>err. wing_and_lift akima c0 p0 q0 = Inl err)"
  using assms unfolding wing_and_lift_raises_iff by (simp add: wing_fields_def)

lemma wing_fields_calculate:
  "wing_fields (fst (calculateLiftAndSplines akima c)) = wing_fields c"
  by (auto simp: calculateLiftAndSplines_def wing_fields_def Let_def split: sum.splits prod.splits)

lemma wing_fields_slot: "wing_fields (slot akima c ev) = wing_fields c"
proof (cases ev)
  case CalculateLiftAndSplines
  then show ?thesis by (simp add: wing_fields_calculate)
qed (auto simp: updateData_def updateSpinboxValues_def updateSetupData_def
        wing_fields_def Let_def split: sum.splits)

lemma wing_fields_run_slots: "wing_fields (run_slots akima c events) = wing_fields c"
  unfolding run_slots_def
  by (induction events arbitrary: c) (simp_all add: wing_fields_slot)

lemma calculateLiftAndSplines_failed:
  assumes "calculateLiftAndSplines akima c = (c', emitted, Some err)"
  shows "emitted = None"
    and "Calculations.lift c' = Calculations.lift c"
    and "(\<exists>e. interpolate_pressures akima c = Inl e) \<Longrightarrow> c' = c"
    and "(\<forall>e. interpolate_pressures akima c \<noteq> Inl e) \<Longrightarrow>
           \<exists>grid p q e. interpolate_pressures akima c = Inr (grid, p, q) \<and>
             wing_and_lift akima (c\<lparr>Calculations.spline_top := p,
                                    Calculations.spline_bottom := q\<rparr>) p q = Inl e"
  using assms
  by (auto simp: calculateLiftAndSplines_def Let_def split: sum.splits prod.splits)

lemma example_short_reading_eq:
  "example_short_reading =
     example_calculations\<lparr>Calculations.spline_top := [0, 1],
                           Calculations.spline_bottom := [0, 26/5],
                           Calculations.lift := Some (- 21/5),
                           Calculations.pressure_array := [1, 2, 3]\<rparr>"
  by (simp add: example_short_reading_def run_slots_def example_calculateLiftAndSplines
        updateData_def)

lemma example_short_reading_fails:
  "calculateLiftAndSplines knot_interpolator example_short_reading =
     (example_short_reading, None, Some IndexError)"
  unfolding example_short_reading_eq
  by (simp add: calculateLiftAndSplines_def interpolate_pressures_def extended_knots_def
        exc_bind_def bool_index_def example_calculations_def example_setup_def)

subsection \<open>Presentation ticks\<close>

lemma example_masks:
  "bool_index [5, 3, 1, 2, 4, 0, 0, 0, 0, 0, 0, 0, 0, 0, 0, 0::real] (setup_data.mask_top example_setup)
     = Inr [5, 3, 1]"
  "bool_index [5, 3, 1, 2, 4, 0, 0, 0, 0, 0, 0, 0, 0, 0, 0, 0::real] (setup_data.mask_bottom example_setup)
     = Inr [2, 4]"
  by (simp_all add: bool_index_def example_setup_def)

lemma run_statements_Cons_ok:
  "run_statements (f # fs) p = (p', None) \<longleftrightarrow>
     (\<exists>q. f p = Inr q \<and> run_statements fs q = (p', None))"
  by (cases "f p") simp_all

lemma set_pressures_top_Inr:
  assumes "set_pressures_top den p = Inr q"
  obtains xs ps where "Plot.x_coordinates_top p = Some xs"
    and "bool_index (Plot.pressure_array p) (Plot.mask_top p) = Inr ps"
    and "q = p\<lparr>line_pressures_top := (xs, map (\<lambda>v. v / den) ps)\<rparr>"
  using assms
  by (auto simp: set_pressures_top_def exc_bind_def attr_def split: option.splits sum.splits)

lemma set_pressures_bottom_Inr:
  assumes "set_pressures_bottom den p = Inr q"
  obtains xs ps where "Plot.x_coordinates_bottom p = Some xs"
    and "bool_index (Plot.pressure_array p) (Plot.mask_bottom p) = Inr ps"
    and "q = p\<lparr>line_pressures_bottom := (xs, map (\<lambda>v. v / den) ps)\<rparr>"
  using assms
  by (auto simp: set_pressures_bottom_def exc_bind_def attr_def split: option.splits sum.splits)

lemma set_spline_top_Inr:
  assumes "set_spline_top den p = Inr q"
  obtains grid spline where "x_grid_interpolation p = Some grid"
    and "Plot.spline_top p = Some spline"
    and "q = p\<lparr>line_spline_top := (grid, map (\<lambda>v. v / den) spline)\<rparr>"
  using assms
  by (auto simp: set_spline_top_def exc_bind_def attr_def split: option.splits)

lemma set_spline_bottom_Inr:
  assumes "set_spline_bottom den p = Inr q"
  obtains grid spline where "x_grid_interpolation p = Some grid"
    and "Plot.spline_bottom p = Some spline"
    and "q = p\<lparr>line_spline_bottom := (grid, map (\<lambda>v. v / den) spline)\<rparr>"
  using assms
  by (auto simp: set_spline_bottom_def exc_bind_def attr_def split: option.splits)

lemma set_wing_top_Inr:
  assumes "set_wing_top scale p = Inr q"
  obtains l where "q = p\<lparr>line_wing_top := l\<rparr>"
  using assms by (auto simp: set_wing_top_def split: if_splits)

lemma set_wing_bottom_Inr:
  assumes "set_wing_bottom scale p = Inr q"
  obtains l where "q = p\<lparr>line_wing_bottom := l\<rparr>"
  using assms by (auto simp: set_wing_bottom_def split: if_splits)

lemma example_plot_cp_tick:
  "animate example_plot_cp =
     (example_plot_cp\<lparr>line_pressures_top := ([1/10, 3/10, 6/10], [5/60, 3/60, 1/60]),
                       line_pressures_bottom := ([2/10, 7/10], [2/60, 4/60]),
                       temp_lcd := Fixed 2 21, p_amb_lcd := Fixed 2 1013,
                       hum_lcd := Fixed 1 40, dens_lcd := Fixed 2 (6/5),
                       lift_top_lcd := Fixed 2 3, lift_bottom_lcd := Fixed 2 3\<rparr>, None)"
  by (simp add: animate_def plotCp_def example_plot_cp_def example_plot_def example_masks
        set_pressures_top_def set_pressures_bottom_def attr_def exc_bind_def
        erase_splines_def updateDynamicLCDs_def denominator_cp_def power2_eq_square)

lemma example_plot_cp_splines_tick:
  "animate example_plot_cp_splines =
     (example_plot_cp_splines
        \<lparr>line_pressures_top := ([1/10, 3/10, 6/10], [5/60, 3/60, 1/60]),
         line_pressures_bottom := ([2/10, 7/10], [2/60, 4/60]),
         line_spline_top := ([0, 1], [0, 1/60]),
         line_spline_bottom := ([0, 1], [0, (26/5)/60]),
         line_wing_top := ([0, 1], [0, 0]),
         line_wing_bottom := ([0, 1], [0, 0])\<rparr>, None)"
  by (simp add: animate_def plotCp_def example_plot_cp_splines_def updateLiftAndSplines_def
        example_result_def example_plot_def example_masks
        set_pressures_top_def set_pressures_bottom_def set_spline_top_def set_spline_bottom_def
        set_wing_top_def set_wing_bottom_def attr_def exc_bind_def
        denominator_cp_def power2_eq_square)

lemma example_plot_cp_mode: "checkbox_tuple example_plot_cp = (False, False, True)"
  by (simp add: example_plot_cp_def)

lemma example_plot_cp_splines_mode: "checkbox_tuple example_plot_cp_splines = (False, True, True)"
  by (simp add: example_plot_cp_splines_def updateLiftAndSplines_def example_plot_def)

subsection \<open>Rounding\<close>

lemma scale_significand_up:
  assumes "0 < m" and "2 ^ 52 \<le> m * 2 ^ k" and "m * 2 ^ k < 2 ^ 53"
    and "k \<le> fuel" and "- 1074 \<le> e - int k"
  shows "scale_significand fuel m e = (m * 2 ^ k, e - int k)"
  using assms
proof (induction k arbitrary: fuel m e)
  case 0
  then show ?case by (subst scale_significand.simps) simp
next
  case (Suc k)
  from Suc.prems have small: "m < 2 ^ 52"
  proof -
    have "m * 2 ^ Suc k < 2 ^ 53" by (rule Suc.prems(3))
    moreover have "m * 2 \<le> m * 2 ^ Suc k"
      using Suc.prems(1) by (simp add: mult_le_cancel_left_pos)
    ultimately have "m * 2 < 2 ^ 53" by linarith
    then show ?thesis by simp
  qed
  have step: "scale_significand fuel m e = scale_significand (fuel - 1) (2 * m) (e - 1)"
    using Suc.prems small by (subst scale_significand.simps) simp
  have "scale_significand (fuel - 1) (2 * m) (e - 1) = (2 * m * 2 ^ k, e - 1 - int k)"
    using Suc.prems by (intro Suc.IH) (simp_all add: mult.assoc mult.left_commute)
  with step show ?case by (simp add: mult.assoc mult.left_commute)
qed

text \<open>
  A positive real below \<open>2 ^ 53\<close> is rounded at the binary place \<open>k\<close> that brings
  it between \<open>2 ^ 52\<close> and \<open>2 ^ 53\<close>.
\<close>

lemma fl64_scaled:
  assumes "0 < x" and "2 ^ 52 \<le> x * 2 ^ k" and "x * 2 ^ k < 2 ^ 53" and "k \<le> 1074"
  shows "fl64 x = of_int (round_half_even (x * 2 ^ k)) / 2 ^ k"
proof -
  have "scale_significand 2200 x 0 = (x * 2 ^ k, 0 - int k)"
    using assms by (intro scale_significand_up) simp_all
  then have "scale_significand 2200 \<bar>x\<bar> 0 = (x * 2 ^ k, 0 - int k)"
    using assms(1) by simp
  then show ?thesis
    using assms(1) by (simp add: fl64_def power_int_def field_simps)
qed

lemma fl64_zero: "fl64 0 = 0"
  by (simp add: fl64_def)


lemma fdiv_one: "fl64 x = x \<Longrightarrow> fdiv x 1 = x"
  by (simp add: fdiv_def)

text \<open>The values of the example reading are float64 numbers.\<close>

lemma fl64_1: "fl64 1 = 1"
  by (simp add: fl64_scaled [where k = 52] round_half_even_def)

lemma fl64_5_4: "fl64 (5/4) = 5/4"
  by (simp add: fl64_scaled [where k = 52] round_half_even_def)

lemma fl64_2: "fl64 2 = 2"
  by (simp add: fl64_scaled [where k = 51] round_half_even_def)

lemma fl64_3: "fl64 3 = 3"
  by (simp add: fl64_scaled [where k = 51] round_half_even_def)

lemma fl64_4: "fl64 4 = 4"
  by (simp add: fl64_scaled [where k = 50] round_half_even_def)

lemma fl64_5: "fl64 5 = 5"
  by (simp add: fl64_scaled [where k = 50] round_half_even_def)

lemma fl64_21: "fl64 21 = 21"
  by (simp add: fl64_scaled [where k = 48] round_half_even_def)

lemma fl64_40: "fl64 40 = 40"
  by (simp add: fl64_scaled [where k = 47] round_half_even_def)

lemma fl64_1013: "fl64 1013 = 1013"
  by (simp add: fl64_scaled [where k = 43] round_half_even_def)

lemmas fl64_examples =
  fl64_zero fl64_1 fl64_2 fl64_3 fl64_4 fl64_5 fl64_21 fl64_40 fl64_1013 fl64_5_4





subsection \<open>Averaging and saving\<close>

lemma store_row_exact: "length arr = k \<Longrightarrow> store_row k arr = Inr arr"
  by (simp add: store_row_def)

lemma take_measurements_Cons:
  assumes a: "acquired s = Inr (pressures, env)" and l: "lift_seen s = l"
    and p: "store_row 16 pressures = Inr pressures" and e: "store_row 4 env = Inr env"
    and r: "take_measurements rest = Inr (ps, ds, ls)"
  shows "take_measurements (s # rest) = Inr (pressures # ps, env # ds, l # ls)"
  unfolding take_measurements.simps a readData_def exc_bind_def
  by (simp add: p e r l)

lemma take_measurements_identical:
  assumes same: "\<forall>s \<in> set ss. acquired s = Inr (pressures, env) \<and> lift_seen s = l"
    and p: "store_row 16 pressures = Inr pressures" and e: "store_row 4 env = Inr env"
  shows "take_measurements ss =
           Inr (replicate (length ss) pressures, replicate (length ss) env,
                replicate (length ss) l)"
  using same
proof (induction ss)
  case Nil
  show ?case by (simp only: take_measurements.simps list.size replicate_0)
next
  case (Cons s rest)
  have "\<forall>s \<in> set rest. acquired s = Inr (pressures, env) \<and> lift_seen s = l"
    using Cons.prems by (simp only: list.set ball_simps) blast
  then have rest: "take_measurements rest =
      Inr (replicate (length rest) pressures, replicate (length rest) env,
           replicate (length rest) l)"
    by (rule Cons.IH)
  have "acquired s = Inr (pressures, env) \<and> lift_seen s = l"
    using Cons.prems by (drule_tac x = s in bspec) simp_all
  then have "acquired s = Inr (pressures, env)" and "lift_seen s = l"
    by blast+
  from take_measurements_Cons [OF this p e rest]
  show ?case by (simp only: length_Cons replicate_Suc)
qed


lemma take_measurements_same:
  assumes same: "\<forall>i < n. acquired (samples i) = Inr (pressures, env) \<and> lift_seen (samples i) = l"
    and p: "length pressures = 16" and e: "length env = 4"
  shows "take_measurements (map samples [0..<n]) =
           Inr (replicate n pressures, replicate n env, replicate n l)"
proof -
  have "\<forall>s \<in> set (map samples [0..<n]). acquired s = Inr (pressures, env) \<and> lift_seen s = l"
  proof
    fix s assume "s \<in> set (map samples [0..<n])"
    then obtain i where "i < n" and "s = samples i"
      by (auto simp only: set_map set_upt atLeastLessThan_iff)
    with same show "acquired s = Inr (pressures, env) \<and> lift_seen s = l"
      by blast
  qed
  from take_measurements_identical [OF this store_row_exact [OF p] store_row_exact [OF e]]
  show ?thesis
    by (simp only: length_map length_upt diff_zero)
qed

lemma pairwise_sum_short: "length a < 8 \<Longrightarrow> pairwise_sum a = foldl fadd 0 a"
  by (subst pairwise_sum.simps) simp

lemma mean_single: "fl64 x = x \<Longrightarrow> mean [x] = x"
  by (simp add: mean_def pairwise_sum_short fadd_def fdiv_def)

lemma mean_axis0_replicate:
  assumes "length v = k"
  shows "mean_axis0 k (replicate n v) =
           map (\<lambda>x. fdiv (foldl fadd 0 (replicate n x)) (real n)) v"
proof -
  have "mean_axis0 k (replicate n v) =
          map ((\<lambda>x. fdiv (foldl fadd 0 (replicate n x)) (real n)) \<circ> nth v) [0..<length v]"
    unfolding assms [symmetric] by (simp add: mean_axis0_def comp_def)
  also have "\<dots> = map (\<lambda>x. fdiv (foldl fadd 0 (replicate n x)) (real n))
                     (map (nth v) [0..<length v])"
    by (simp only: map_map)
  also have "\<dots> = map (\<lambda>x. fdiv (foldl fadd 0 (replicate n x)) (real n)) v"
    by (simp only: map_nth)
  finally show ?thesis .
qed

lemma mean_axis0_single:
  assumes "length v = k" and "\<forall>x \<in> set v. fl64 x = x"
  shows "mean_axis0 k [v] = v"
proof -
  have "mean_axis0 k (replicate 1 v) = map (\<lambda>x. fdiv (foldl fadd 0 (replicate 1 x)) (real 1)) v"
    by (rule mean_axis0_replicate [OF assms(1)])
  also have "\<dots> = map (\<lambda>x. x) v"
    using assms(2) by (intro map_cong) (simp_all add: fadd_def fdiv_def)
  finally show ?thesis by simp
qed


lemma measurement_means_single:
  assumes n: "number_of_measurements d = 1"
    and r: "acquired (samples 0) = Inr (pressures, env)"
    and p: "length pressures = 16" and e: "length env = 4"
    and fp: "\<forall>x \<in> set pressures. fl64 x = x" and fe: "\<forall>x \<in> set env. fl64 x = x"
    and fl: "fl64 (lift_seen (samples 0)) = lift_seen (samples 0)"
  shows "measurement_means d samples = Inr (pressures, env, lift_seen (samples 0))"
proof -
  have "take_measurements (map samples [0..<1]) =
          Inr (replicate 1 pressures, replicate 1 env, replicate 1 (lift_seen (samples 0)))"
    by (rule take_measurements_same [OF _ p e]) (simp add: r)
  then have tm: "take_measurements (map samples [0..<number_of_measurements d]) =
          Inr ([pressures], [env], [lift_seen (samples 0)])"
    unfolding n by simp
  show ?thesis
    unfolding measurement_means_def tm exc_bind_def
    by (simp add: mean_axis0_single [OF p fp] mean_axis0_single [OF e fe] mean_single [OF fl])
qed


lemma example_lengths:
  "length [5, 3, 1, 2, 4, 0, 0, 0, 0, 0, 0, 0, 0, 0, 0, 0::real] = 16"
  "length [21, 1013, 40, 5/4::real] = 4"
  by simp_all

lemma example_floats:
  "\<forall>x \<in> set [5, 3, 1, 2, 4, 0, 0, 0, 0, 0, 0, 0, 0, 0, 0, 0::real]. fl64 x = x"
  "\<forall>x \<in> set [21, 1013, 40, 5/4::real]. fl64 x = x"
  "fl64 (lift_seen (example_samples 0)) = lift_seen (example_samples 0)"
  by (simp_all add: fl64_examples example_samples_def)

lemma example_means:
  "measurement_means example_data example_samples =
     Inr ([5, 3, 1, 2, 4, 0, 0, 0, 0, 0, 0, 0, 0, 0, 0, 0], [21, 1013, 40, 5/4], 3)"
proof -
  have n: "number_of_measurements example_data = 1"
    by (simp add: example_data_def)
  have r: "acquired (example_samples 0) =
      Inr ([5, 3, 1, 2, 4, 0, 0, 0, 0, 0, 0, 0, 0, 0, 0, 0], [21, 1013, 40, 5/4])"
    by (simp add: example_samples_def)
  have l: "lift_seen (example_samples 0) = 3"
    by (simp add: example_samples_def)
  from measurement_means_single
         [where samples = example_samples, OF n r example_lengths example_floats]
  show ?thesis unfolding l .
qed



lemma example_header_distinct: "distinct example_header" "length example_header = 45"
  by (simp_all add: example_header_def)

lemma example_row_1:
  "new_row example_data ''12:00:00'' 2 example_samples =
     Inr [StrCell (Text ''12:00:00''), FloatCell 21, FloatCell 1013, FloatCell 40, FloatCell
         (5/4), FloatCell 5, FloatCell 10, FloatCell 3, FloatCell (1/2), IntCell 1,
         FloatCell 2, FloatCell 5, FloatCell 3, FloatCell 1, FloatCell 2, FloatCell 4,
         FloatCell 0, FloatCell 0, FloatCell 0, FloatCell 0, FloatCell 0, FloatCell 0,
         FloatCell 0, FloatCell 0, FloatCell 0, FloatCell 0, FloatCell 0, FloatCell (1/10),
         FloatCell (3/10), FloatCell (6/10), FloatCell (2/10), FloatCell (7/10), FloatCell
         0, FloatCell 0, FloatCell 0, FloatCell 0, FloatCell 0, FloatCell 0, FloatCell 0,
         FloatCell 0, FloatCell 0, FloatCell 0, FloatCell 0, StrCell (Text
         ''1110000000000000''), StrCell (Text ''0001100000000000'')]"
  unfolding new_row_def example_means exc_bind_def
  by (simp add: example_data_def attr_def example_setup_def mask_str_def)

lemma example_row_2:
  "new_row example_data ''12:05:00'' 3 example_samples =
     Inr [StrCell (Text ''12:05:00''), FloatCell 21, FloatCell 1013, FloatCell 40, FloatCell
         (5/4), FloatCell 5, FloatCell 10, FloatCell 3, FloatCell (1/2), IntCell 1,
         FloatCell 3, FloatCell 5, FloatCell 3, FloatCell 1, FloatCell 2, FloatCell 4,
         FloatCell 0, FloatCell 0, FloatCell 0, FloatCell 0, FloatCell 0, FloatCell 0,
         FloatCell 0, FloatCell 0, FloatCell 0, FloatCell 0, FloatCell 0, FloatCell (1/10),
         FloatCell (3/10), FloatCell (6/10), FloatCell (2/10), FloatCell (7/10), FloatCell
         0, FloatCell 0, FloatCell 0, FloatCell 0, FloatCell 0, FloatCell 0, FloatCell 0,
         FloatCell 0, FloatCell 0, FloatCell 0, FloatCell 0, StrCell (Text
         ''1110000000000000''), StrCell (Text ''0001100000000000'')]"
  unfolding new_row_def example_means exc_bind_def
  by (simp add: example_data_def attr_def example_setup_def mask_str_def)

lemma example_first_save:
  "saveData example_data ''12:00:00'' 2 example_samples Missing = (example_file_1, None)"
  unfolding saveData_def example_row_1
  by (simp add: exc_bind_def attr_def example_data_def write_row_def set_columns_def
        example_header_distinct to_csv_def field_of_cell_def example_file_1_def str_of_int_def
        digits_of_nat.simps)

lemma digits_examples:
  "int64_literal (Text ''1110000000000000'') = Some 1110000000000000"
  "int64_literal (Text ''0001100000000000'') = Some 1100000000000"
  "int64_literal (Text ''1'') = Some 1"
  "int64_literal (Text ''12:00:00'') = None"
  "str_of_int 1110000000000000 = ''1110000000000000''"
  "str_of_int 1100000000000 = ''1100000000000''"
  "str_of_int 1 = ''1''"
  by (simp_all add: int64_literal_def nat_of_digits_def digit_value_def is_digit_def
        str_of_int_def digits_of_nat.simps Let_def)


lemma infer_examples:
  "infer_column [FloatText r] = [FloatCell r]"
  "infer_column [Text ''12:00:00''] = [StrCell (Text ''12:00:00'')]"
  "infer_column [Text ''1''] = [IntCell 1]"
  "infer_column [Text ''1110000000000000''] = [IntCell 1110000000000000]"
  "infer_column [Text ''0001100000000000''] = [IntCell 1100000000000]"
  by (simp_all add: infer_column_def digits_examples float_of_field_def)
     (simp_all add: int64_literal_def)

lemma mangle_example: "mangle_dupe_cols [] example_header = example_header"
  by (simp add: example_header_def)

lemma example_read_csv:
  "read_csv example_file_1 =
     Inr \<lparr>columns = example_header,
          rows = [[StrCell (Text ''12:00:00''), FloatCell 21, FloatCell 1013, FloatCell 40,
                  FloatCell (5/4), FloatCell 5, FloatCell 10, FloatCell 3, FloatCell (1/2),
                  IntCell 1, FloatCell 2, FloatCell 5, FloatCell 3, FloatCell 1, FloatCell
                  2, FloatCell 4, FloatCell 0, FloatCell 0, FloatCell 0, FloatCell 0,
                  FloatCell 0, FloatCell 0, FloatCell 0, FloatCell 0, FloatCell 0, FloatCell
                  0, FloatCell 0, FloatCell (1/10), FloatCell (3/10), FloatCell (6/10),
                  FloatCell (2/10), FloatCell (7/10), FloatCell 0, FloatCell 0, FloatCell 0,
                  FloatCell 0, FloatCell 0, FloatCell 0, FloatCell 0, FloatCell 0, FloatCell
                  0, FloatCell 0, FloatCell 0, IntCell 1110000000000000, IntCell
                  1100000000000]]\<rparr>"
  by (simp add: read_csv_def example_file_1_def mangle_example example_header_distinct
        upt_rec infer_examples Let_def)

lemma example_second_save:
  "saveData example_data ''12:05:00'' 3 example_samples example_file_1 = (example_file_2, None)"
  unfolding saveData_def example_row_2
  by (simp add: exc_bind_def attr_def example_data_def write_row_def example_read_csv
        set_columns_def example_header_distinct concat_def to_csv_def field_of_cell_def
        digits_examples example_file_2_def)
     (simp add: example_file_1_def)


subsection \<open>Setup validation\<close>

lemma first_index_less: "v \<in> set xs \<Longrightarrow> first_index xs v < length xs"
  by (induction xs) (auto simp: first_index_def)

lemma nth_first_index: "v \<in> set xs \<Longrightarrow> xs ! first_index xs v = v"
  by (induction xs) (auto simp: first_index_def)

lemma before_first_index: "j < first_index xs v \<Longrightarrow> xs ! j \<noteq> v"
proof (induction xs arbitrary: j)
  case Nil
  then show ?case by (simp add: first_index_def)
next
  case (Cons x xs)
  show ?case
  proof (cases j)
    case 0
    with Cons.prems show ?thesis by (auto simp: first_index_def split: if_splits)
  next
    case (Suc k)
    with Cons.prems have "k < first_index xs v"
      by (auto simp: first_index_def split: if_splits)
    with Cons.IH Suc show ?thesis by simp
  qed
qed

lemma first_index_le: "i < length xs \<Longrightarrow> first_index xs (xs ! i) \<le> i"
  using before_first_index [of i xs "xs ! i"] by (meson not_le_imp_less)

lemma set_unique_indices: "set (unique_indices xs) = first_index xs ` set xs"
  by (simp add: unique_indices_def)

lemma in_duplicate_indices:
  "i \<in> set (duplicate_indices xs) \<longleftrightarrow> i < length xs \<and> (\<exists>j<i. xs ! j = xs ! i)"
proof
  assume "i \<in> set (duplicate_indices xs)"
  then have i: "i < length xs" and notin: "i \<notin> first_index xs ` set xs"
    by (simp_all add: duplicate_indices_def set_unique_indices)
  from i notin have "first_index xs (xs ! i) \<noteq> i"
    by (metis imageI nth_mem)
  with first_index_le [OF i] have "first_index xs (xs ! i) < i" by simp
  moreover have "xs ! first_index xs (xs ! i) = xs ! i"
    using i by (simp add: nth_first_index)
  ultimately show "i < length xs \<and> (\<exists>j<i. xs ! j = xs ! i)"
    using i by blast
next
  assume r: "i < length xs \<and> (\<exists>j<i. xs ! j = xs ! i)"
  then obtain j where j: "j < i" "xs ! j = xs ! i" by blast
  have "i \<notin> first_index xs ` set xs"
  proof
    assume "i \<in> first_index xs ` set xs"
    then obtain v where v: "v \<in> set xs" "i = first_index xs v" by blast
    then have "xs ! i = v" by (simp add: nth_first_index)
    with before_first_index [of j xs v] j v show False by simp
  qed
  with r show "i \<in> set (duplicate_indices xs)"
    by (simp add: duplicate_indices_def set_unique_indices)
qed

lemma any_nonzero_duplicate_indices:
  "any_nonzero (duplicate_indices xs) \<longleftrightarrow> \<not> distinct xs"
proof
  assume "any_nonzero (duplicate_indices xs)"
  then obtain i where "i \<in> set (duplicate_indices xs)"
    by (auto simp: any_nonzero_def list_ex_iff)
  then obtain j where "i < length xs" "j < i" "xs ! j = xs ! i"
    by (auto simp: in_duplicate_indices)
  then have "j < length xs" "i \<noteq> j" by simp_all
  with \<open>i < length xs\<close> \<open>xs ! j = xs ! i\<close> show "\<not> distinct xs"
    unfolding distinct_conv_nth by metis
next
  assume "\<not> distinct xs"
  then obtain i j where ij: "i < length xs" "j < length xs" "i \<noteq> j" "xs ! i = xs ! j"
    by (auto simp: distinct_conv_nth)
  define a where "a = max i j"
  define b where "b = min i j"
  have "a < length xs" "b < a" "xs ! b = xs ! a"
    using ij by (auto simp: a_def b_def max_def min_def)
  then have "a \<in> set (duplicate_indices xs)" and "a \<noteq> 0"
    by (auto simp: in_duplicate_indices)
  then show "any_nonzero (duplicate_indices xs)"
    by (auto simp: any_nonzero_def list_ex_iff)
qed


lemma check_and_emit_Inr:
  assumes "check_and_emit h w outcome = Inr sigs"
  obtains mt mb ct cb where
    "broadcast2 (\<and>) (x_coordinates_status w) (color_code w) = Inr mt"
    "broadcast2 (\<and>) (x_coordinates_status w) (map Not (color_code w)) = Inr mb"
    "bool_index (h (SetUpWindow.x_coordinates w)) mt = Inr ct"
    "bool_index (h (SetUpWindow.x_coordinates w)) mb = Inr cb"
    "sigs =
       (if length (filter id mt) < 2 \<or> length (filter id mb) < 2
        then [ShowWarning ''Top and bottom need at least two points for interpolation.'',
              Switch_plot_button_sig False]
        else [])
       @ (if \<not> distinct ct \<or> \<not> distinct cb
          then [ShowWarning ''Please check for duplicates.'', Switch_plot_button_sig False]
          else [])
       @ (if distinct ct \<and> distinct cb
             \<and> \<not> (length (filter id mt) < 2 \<or> length (filter id mb) < 2)
          then [Update_sig mt mb (SetUpWindow.x_coordinates w), Path_name_sig]
               @ (if demo_mode w then [Switch_plot_button_sig True]
                  else (case outcome of
                          Connected \<Rightarrow>
                            [Send_serial_connections_sig, Switch_plot_button_sig True]
                        | FirstReadFailed \<Rightarrow>
                            [Send_serial_connections_sig, Switch_plot_button_sig True,
                             ShowWarning ''Could not connect devices.'',
                             Switch_plot_button_sig False]
                        | ConstructorFailed \<Rightarrow>
                            [ShowWarning ''Could not connect devices.'',
                             Switch_plot_button_sig False]))
          else [])"
  using assms
  by (auto simp: check_and_emit_def exc_bind_def Let_def any_nonzero_duplicate_indices
           split: sum.splits)

lemma hd_map_Not: "length color = Suc 0 \<Longrightarrow> hd (map Not color) = (\<not> hd color)"
  by (cases color) simp_all

lemma broadcast2_masks_disjoint:
  assumes "broadcast2 (\<and>) status color = Inr mt"
    and "broadcast2 (\<and>) status (map Not color) = Inr mb"
  shows "length mt = length mb \<and> (\<forall>i<length mt. \<not> (mt ! i \<and> mb ! i))"
  using assms
  by (auto simp: broadcast2_def hd_map_Not split: if_splits)

text \<open>
  What the checks of \<^verbatim>\<open>setUp\<close> ensure of the signals of one run: the two masks are
  disjoint, \<^verbatim>\<open>update_sig\<close> is emitted only with these masks and the array of the
  window, and only if each mask selects at least two taps and the selected coordinates
  of each surface are pairwise different as the array holds them during this run;
  otherwise no \<^verbatim>\<open>update_sig\<close> is emitted and the plot button is switched off.
\<close>

lemma emitted_update_is_valid:
  assumes "check_and_emit h w outcome = Inr sigs"
  shows "\<exists>mask_top mask_bottom coordinates_top coordinates_bottom.
           broadcast2 (\<and>) (x_coordinates_status w) (color_code w) = Inr mask_top \<and>
           broadcast2 (\<and>) (x_coordinates_status w) (map Not (color_code w)) = Inr mask_bottom \<and>
           bool_index (h (SetUpWindow.x_coordinates w)) mask_top = Inr coordinates_top \<and>
           bool_index (h (SetUpWindow.x_coordinates w)) mask_bottom = Inr coordinates_bottom \<and>
           length mask_top = length mask_bottom \<and>
           (\<forall>i<length mask_top. \<not> (mask_top ! i \<and> mask_bottom ! i)) \<and>
           (\<forall>mt mb xs. Update_sig mt mb xs \<in> set sigs \<longrightarrow>
              mt = mask_top \<and> mb = mask_bottom \<and> xs = SetUpWindow.x_coordinates w \<and>
              2 \<le> length (filter id mask_top) \<and> 2 \<le> length (filter id mask_bottom) \<and>
              distinct coordinates_top \<and> distinct coordinates_bottom) \<and>
           (length (filter id mask_top) < 2 \<or> length (filter id mask_bottom) < 2 \<or>
            \<not> distinct coordinates_top \<or> \<not> distinct coordinates_bottom \<longrightarrow>
              (\<forall>mt mb xs. Update_sig mt mb xs \<notin> set sigs) \<and>
              Switch_plot_button_sig False \<in> set sigs \<and>
              Switch_plot_button_sig True \<notin> set sigs)"
proof -
  from assms obtain mt mb ct cb where
    mt: "broadcast2 (\<and>) (x_coordinates_status w) (color_code w) = Inr mt" and
    mb: "broadcast2 (\<and>) (x_coordinates_status w) (map Not (color_code w)) = Inr mb" and
    ct: "bool_index (h (SetUpWindow.x_coordinates w)) mt = Inr ct" and
    cb: "bool_index (h (SetUpWindow.x_coordinates w)) mb = Inr cb" and
    sigs: "sigs =
       (if length (filter id mt) < 2 \<or> length (filter id mb) < 2
        then [ShowWarning ''Top and bottom need at least two points for interpolation.'',
              Switch_plot_button_sig False]
        else [])
       @ (if \<not> distinct ct \<or> \<not> distinct cb
          then [ShowWarning ''Please check for duplicates.'', Switch_plot_button_sig False]
          else [])
       @ (if distinct ct \<and> distinct cb
             \<and> \<not> (length (filter id mt) < 2 \<or> length (filter id mb) < 2)
          then [Update_sig mt mb (SetUpWindow.x_coordinates w), Path_name_sig]
               @ (if demo_mode w then [Switch_plot_button_sig True]
                  else (case outcome of
                          Connected \<Rightarrow>
                            [Send_serial_connections_sig, Switch_plot_button_sig True]
                        | FirstReadFailed \<Rightarrow>
                            [Send_serial_connections_sig, Switch_plot_button_sig True,
                             ShowWarning ''Could not connect devices.'',
                             Switch_plot_button_sig False]
                        | ConstructorFailed \<Rightarrow>
                            [ShowWarning ''Could not connect devices.'',
                             Switch_plot_button_sig False]))
          else [])"
    by (rule check_and_emit_Inr)
  note disjoint = broadcast2_masks_disjoint [OF mt mb]
  have accepted: "mt' = mt \<and> mb' = mb \<and> xs = SetUpWindow.x_coordinates w \<and>
      2 \<le> length (filter id mt) \<and> 2 \<le> length (filter id mb) \<and> distinct ct \<and> distinct cb"
    if "Update_sig mt' mb' xs \<in> set sigs" for mt' mb' xs
    using that unfolding sigs
    by (cases outcome) (auto split: if_splits)
  have rejected: "(\<forall>mt' mb' xs. Update_sig mt' mb' xs \<notin> set sigs) \<and>
      Switch_plot_button_sig False \<in> set sigs \<and> Switch_plot_button_sig True \<notin> set sigs"
    if "length (filter id mt) < 2 \<or> length (filter id mb) < 2 \<or> \<not> distinct ct \<or> \<not> distinct cb"
    using that unfolding sigs by auto
  show ?thesis
    using mt mb ct cb disjoint accepted rejected by blast
qed

text \<open>
  \<^verbatim>\<open>setUp\<close> leaves the values of the spin boxes in the array of coordinates, whatever
  it emits.
\<close>

lemma setUp_writes_coordinates:
  assumes "length (x_coordinates_status w) \<ge> length (checkbox_list w)"
  shows "fst (setUp h w outcome) (SetUpWindow.x_coordinates w) =
           assign_items (h (SetUpWindow.x_coordinates w)) (spinbox_list w)"
  using assms by (simp add: setUp_def Let_def)

text \<open>The two runs of the example.\<close>

lemma example_accepted_run:
  "accepted_run =
     (example_heap(0 := [1/10, 3/10, 6/10, 2/10, 7/10, 0, 0, 0, 0, 0, 0, 0, 0, 0, 0, 0]),
      example_window
        \<lparr>x_coordinates_status :=
           [True, True, True, True, True, False, False, False,
            False, False, False, False, False, False, False, False],
         color_code :=
           [True, True, True, False, False, False, False, False,
            False, False, False, False, False, False, False, False]\<rparr>,
      Inr [Update_sig (setup_data.mask_top example_setup)
             (setup_data.mask_bottom example_setup) 0,
           Path_name_sig, Switch_plot_button_sig True])"
  by (simp add: accepted_run_def setUp_def example_window_def example_heap_def
        assign_items_def check_and_emit_def example_setup_def broadcast2_def bool_index_def
        exc_bind_def Let_def any_nonzero_duplicate_indices)

lemma example_kept_after_accepted:
  "kept_after_accepted =
     Some \<lparr>kept_mask_top = setup_data.mask_top example_setup,
           kept_mask_bottom = setup_data.mask_bottom example_setup,
           kept_x_coordinates = 0,
           kept_x_coordinates_top = [1/10, 3/10, 6/10],
           kept_x_coordinates_bottom = [2/10, 7/10]\<rparr>"
  unfolding kept_after_accepted_def example_accepted_run
  by (simp add: Data_deliver_def Data_updateSetupData_def example_setup_def bool_index_def)

lemma example_rejected_run:
  "rejected_run =
     (example_heap(0 := [1/10, 3/10, 1/10, 2/10, 7/10, 0, 0, 0, 0, 0, 0, 0, 0, 0, 0, 0]),
      example_window_duplicate,
      Inr [ShowWarning ''Please check for duplicates.'', Switch_plot_button_sig False])"
  unfolding rejected_run_def example_window_duplicate_def example_accepted_run
  by (simp add: setUp_def example_window_def example_heap_def
        assign_items_def check_and_emit_def broadcast2_def bool_index_def
        exc_bind_def Let_def any_nonzero_duplicate_indices)

lemma example_kept_after_rejected: "kept_after_rejected = kept_after_accepted"
  unfolding kept_after_rejected_def example_rejected_run
  by (simp add: Data_deliver_def)

lemma measurement_means_setup_attrs:
  "measurement_means (d\<lparr>Data.setup_attrs := su\<rparr>) samples = measurement_means d samples"
  by (simp add: measurement_means_def)

lemma example_row_after_rejected:
  "new_row Data_after_rejected ''12:00:00'' 2 example_samples =
     Inr [StrCell (Text ''12:00:00''), FloatCell 21, FloatCell 1013, FloatCell 40, FloatCell
         (5/4), FloatCell 5, FloatCell 10, FloatCell 3, FloatCell (1/2), IntCell 1,
         FloatCell 2, FloatCell 5, FloatCell 3, FloatCell 1, FloatCell 2, FloatCell 4,
         FloatCell 0, FloatCell 0, FloatCell 0, FloatCell 0, FloatCell 0, FloatCell 0,
         FloatCell 0, FloatCell 0, FloatCell 0, FloatCell 0, FloatCell 0, FloatCell (1/10),
         FloatCell (3/10), FloatCell (1/10), FloatCell (2/10), FloatCell (7/10), FloatCell
         0, FloatCell 0, FloatCell 0, FloatCell 0, FloatCell 0, FloatCell 0, FloatCell 0,
         FloatCell 0, FloatCell 0, FloatCell 0, FloatCell 0, StrCell (Text
         ''1110000000000000''), StrCell (Text ''0001100000000000'')]"
  unfolding new_row_def Data_after_rejected_def Data_at_def measurement_means_setup_attrs
    example_means exc_bind_def example_kept_after_rejected example_kept_after_accepted
    example_rejected_run
  by (simp add: setup_attrs_at_def example_data_def attr_def example_setup_def mask_str_def)

section \<open>Lift calculation\<close>

text \<open>
  C2, as amended.  Whenever \<^verbatim>\<open>calculateLiftAndSplines\<close> emits a result, the emitted
  lift is the negative of the panel sum of the specification taken over the emitted wing
  samples and splines: each panel contributes minus its area times its normal component
  times the pressure at the next grid index, the two surfaces are added and the sum is
  scaled by the cosine of the angle of attack, which is given in degrees.
\<close>

theorem calculated_lift_negated_panel_sum:
  assumes "calculateLiftAndSplines akima c = (c', Some r, e)"
  shows "ls_lift r =
           - spec_lift (Calculations.width c) (chord_length c) (deg2rad (Calculations.angle c))
               (ls_x_wing_interpolation_top r) (ls_y_wing_top r) (ls_spline_top r)
               (ls_x_wing_interpolation_bottom r) (ls_y_wing_bottom r) (ls_spline_bottom r)"
proof -
  from assms obtain grid p_top p_bottom l y_top y_bottom xw_top xw_bottom where
    ip: "interpolate_pressures akima c = Inr (grid, p_top, p_bottom)" and
    wl: "wing_and_lift akima (c\<lparr>Calculations.spline_top := p_top,
                            Calculations.spline_bottom := p_bottom\<rparr>) p_top p_bottom
       = Inr (l, y_top, y_bottom, xw_top, xw_bottom)" and
    r: "r = \<lparr>ls_lift = l, ls_spline_top = p_top, ls_spline_bottom = p_bottom,
          ls_x_grid_interpolation = grid, ls_y_wing_top = y_top, ls_y_wing_bottom = y_bottom,
          ls_x_wing_interpolation_top = xw_top, ls_x_wing_interpolation_bottom = xw_bottom,
          ls_lift_data_available = True\<rparr>"
    by (rule calculateLiftAndSplines_emitted)
  note n = interpolate_pressures_Inr [OF ip] wing_and_lift_Inr(1-4) [OF wl]
  have top: "lift_top (Calculations.width c) (chord_length c) xw_top y_top p_top =
           - (\<Sum>i<length xw_top - 1.
                 spec_panel_term (- 1) (Calculations.width c) (chord_length c) xw_top y_top p_top i)"
    by (rule lift_top_sum) (simp_all add: n)
  have bottom: "lift_bottom (Calculations.width c) (chord_length c) xw_bottom y_bottom p_bottom =
           - (\<Sum>i<length xw_bottom - 1.
                 spec_panel_term 1 (Calculations.width c) (chord_length c) xw_bottom y_bottom p_bottom i)"
    by (rule lift_bottom_sum) (simp_all add: n)
  show ?thesis
    using wing_and_lift_Inr(5) [OF wl]
    by (simp add: r spec_lift_def top bottom algebra_simps)
qed

text \<open>The example run: the emitted lift is \<open>-21/5\<close>, the panel sum \<open>21/5\<close>.\<close>

theorem calculated_lift_negated_panel_sum_witness:
  "ls_lift example_result = - (21/5) \<and>
   spec_lift 1 1 (deg2rad 0) [0, 1] [0, 0] [0, 1] [0, 1] [0, 0] [0, 26/5] = 21/5"
  using calculated_lift_negated_panel_sum [OF example_calculateLiftAndSplines]
  by (simp add: example_result_def example_calculations_def)

text \<open>
  C2 as stated fails: on the example the emitted lift differs from the panel sum without
  the sign.
\<close>

theorem lift_is_not_plain_panel_sum:
  "calculateLiftAndSplines knot_interpolator example_calculations =
     (example_calculations\<lparr>Calculations.spline_top := [0, 1],
                            Calculations.spline_bottom := [0, 26/5],
                            Calculations.lift := Some (- 21/5)\<rparr>,
      Some example_result, None) \<and>
   ls_lift example_result \<noteq>
     spec_lift (Calculations.width example_calculations) (chord_length example_calculations)
       (deg2rad (Calculations.angle example_calculations))
       (ls_x_wing_interpolation_top example_result) (ls_y_wing_top example_result)
       (ls_spline_top example_result)
       (ls_x_wing_interpolation_bottom example_result) (ls_y_wing_bottom example_result)
       (ls_spline_bottom example_result)"
proof (intro conjI)
  show "calculateLiftAndSplines knot_interpolator example_calculations =
     (example_calculations\<lparr>Calculations.spline_top := [0, 1],
                            Calculations.spline_bottom := [0, 26/5],
                            Calculations.lift := Some (- 21/5)\<rparr>,
      Some example_result, None)"
    by (rule example_calculateLiftAndSplines)
  show "ls_lift example_result \<noteq>
     spec_lift (Calculations.width example_calculations) (chord_length example_calculations)
       (deg2rad (Calculations.angle example_calculations))
       (ls_x_wing_interpolation_top example_result) (ls_y_wing_top example_result)
       (ls_spline_top example_result)
       (ls_x_wing_interpolation_bottom example_result) (ls_y_wing_bottom example_result)
       (ls_spline_bottom example_result)"
    using example_spec_lift by (simp add: example_result_def example_calculations_def)
qed

section \<open>Device channel\<close>

text \<open>
  C4.  On a connected device with an open port, a reply whose number of parsed values
  differs from the expected shape makes \<^verbatim>\<open>getNewData\<close> raise: the shape exception
  is raised inside the \<^verbatim>\<open>try\<close> block and leaves the method as the method's own
  exception, so no array (truncated, padded or otherwise) is returned.  A reply with
  exactly the expected number of values is returned unchanged.
\<close>

theorem getNewData_shape:
  assumes "connection_established d" and "ser_open d"
  shows "(length xs \<noteq> expected_shape d \<longrightarrow>
            snd (getNewData_try d (Inr xs)) =
              Inl (Exception ''Received data does not have expected shape.'') \<and>
            snd (getNewData d (Inr xs)) = Inl (Exception ''ERROR in method getNewData.'')) \<and>
         (length xs = expected_shape d \<longrightarrow>
            snd (getNewData d (Inr xs)) = Inr (Some xs)) \<and>
         (\<forall>ys. snd (getNewData d (Inr xs)) = Inr (Some ys) \<longrightarrow>
            ys = xs \<and> length ys = expected_shape d)"
  using assms by (auto simp: getNewData_def getNewData_try_def)

text \<open>
  The environment sensor with arity 4: three values are refused, four are returned.
\<close>

theorem getNewData_shape_witness:
  "snd (getNewData \<lparr>connection_established = True, expected_shape = 4, ser_open = True\<rparr>
          (Inr [21, 1013, 40])) = Inl (Exception ''ERROR in method getNewData.'') \<and>
   snd (getNewData \<lparr>connection_established = True, expected_shape = 4, ser_open = True\<rparr>
          (Inr [21, 1013, 40, 6/5])) = Inr (Some [21, 1013, 40, 6/5])"
  using
    getNewData_shape [of "\<lparr>connection_established = True, expected_shape = 4, ser_open = True\<rparr>"
      "[21, 1013, 40]"]
    getNewData_shape [of "\<lparr>connection_established = True, expected_shape = 4, ser_open = True\<rparr>"
      "[21, 1013, 40, 6/5]"]
  by simp

text \<open>
  C10.  A reply of the wrong length closes the serial port before the exception leaves
  \<^verbatim>\<open>getNewData\<close>; on the device left behind every further query raises,
  whatever is replied, while a newly constructed device answers a well-formed reply.
\<close>

theorem shape_mismatch_closes_port:
  assumes "connection_established d" and "ser_open d" and "length xs \<noteq> expected_shape d"
  shows "\<not> ser_open (fst (getNewData d (Inr xs))) \<and>
         snd (getNewData d (Inr xs)) = Inl (Exception ''ERROR in method getNewData.'') \<and>
         (\<forall>reply. snd (getNewData (fst (getNewData d (Inr xs))) reply) =
                    Inl (Exception ''ERROR in method getNewData.'')) \<and>
         (\<forall>ys d2. length ys = expected_shape d \<and> Device_init True (expected_shape d) = Inr d2
              \<longrightarrow> snd (getNewData d2 (Inr ys)) = Inr (Some ys))"
  using assms by (auto simp: getNewData_def getNewData_try_def Device_init_def)

text \<open>The environment sensor after a reply of three values.\<close>

theorem shape_mismatch_closes_port_witness:
  "\<not> ser_open (fst (getNewData \<lparr>connection_established = True, expected_shape = 4, ser_open = True\<rparr>
                       (Inr [21, 1013, 40]))) \<and>
   snd (getNewData (fst (getNewData \<lparr>connection_established = True, expected_shape = 4, ser_open = True\<rparr>
                       (Inr [21, 1013, 40]))) (Inr [21, 1013, 40, 6/5])) =
     Inl (Exception ''ERROR in method getNewData.'') \<and>
   snd (getNewData \<lparr>connection_established = True, expected_shape = 4, ser_open = True\<rparr>
          (Inr [21, 1013, 40, 6/5])) = Inr (Some [21, 1013, 40, 6/5])"
  using shape_mismatch_closes_port
          [of "\<lparr>connection_established = True, expected_shape = 4, ser_open = True\<rparr>"
              "[21, 1013, 40]"]
  by (simp add: Device_init_def)

section \<open>Calculation task\<close>

text \<open>
  C1, at the input of the specification.  With top taps at 0.1, 0.3, 0.6 and pressures
  5, 3, 1 the top surface receives the anchors \<open>(0, 0)\<close> and \<open>(1, 1)\<close>: the
  trailing pressure repeats the last pressure.  The formula of the bottom surface gives
  \<open>(1, -5/3)\<close> on the same knots, the point on the line through \<open>(0.3, 3)\<close> and
  \<open>(0.6, 1)\<close>.
\<close>

theorem top_trailing_anchor_example:
  "extended_knots example_calculations =
     Inr (([0, 1/10, 3/10, 6/10, 1], [0, 5, 3, 1, 1]), ([0, 2/10, 7/10, 1], [0, 2, 4, 26/5])) \<and>
   append_trailing_top [1/10, 3/10, 6/10] [5, 3, 1] = Inr ([1/10, 3/10, 6/10, 1], [5, 3, 1, 1]) \<and>
   append_trailing_bottom [1/10, 3/10, 6/10] [1/10, 3/10, 6/10] [5, 3, 1] =
     Inr ([1/10, 3/10, 6/10, 1], [5, 3, 1, - 5/3]) \<and>
   (3::real) + (1 - 3) / (6/10 - 3/10) * (1 - 3/10) = - 5/3 \<and>
   (1::real) \<noteq> - 5/3"
  by (simp add: example_extended_knots append_trailing_top_def append_trailing_bottom_def)

text \<open>
  C3.  When the pipeline raises, the handler prints and logs the exception, nothing is
  emitted (so the receivers of the signal keep what they have) and the stored lift is
  unchanged.
  Moreover, once some earlier cycle has emitted a result, a cycle that raises after any
  further slots have run leaves the whole object unchanged: the wing data and the grid
  size are never reassigned, so the failure lies before the assignment of the splines.
\<close>

theorem failed_cycle_keeps_last_result:
  assumes "calculateLiftAndSplines akima c = (c', emitted, Some err)"
  shows "emitted = None \<and>
         send_lift_splines_sig emitted receivers = receivers \<and>
         Calculations.lift c' = Calculations.lift c \<and>
         (\<forall>c0 c1 r e0 events.
            calculateLiftAndSplines akima c0 = (c1, Some r, e0) \<and> c = run_slots akima c1 events
            \<longrightarrow> c' = c)"
proof (intro conjI allI impI)
  show none: "emitted = None"
    by (rule calculateLiftAndSplines_failed(1) [OF assms])
  show "send_lift_splines_sig emitted receivers = receivers"
    by (simp add: none send_lift_splines_sig_def)
  show "Calculations.lift c' = Calculations.lift c"
    by (rule calculateLiftAndSplines_failed(2) [OF assms])
next
  fix c0 c1 r e0 events
  assume prev: "calculateLiftAndSplines akima c0 = (c1, Some r, e0) \<and> c = run_slots akima c1 events"
  then obtain p0 q0 l y_top y_bottom xw_top xw_bottom where
    wl0: "wing_and_lift akima (c0\<lparr>Calculations.spline_top := p0,
                                   Calculations.spline_bottom := q0\<rparr>) p0 q0
            = Inr (l, y_top, y_bottom, xw_top, xw_bottom)"
    and c1: "c1 = c0\<lparr>Calculations.spline_top := p0, Calculations.spline_bottom := q0,
                     Calculations.lift := Some l\<rparr>"
    by (blast elim: calculateLiftAndSplines_emitted)
  have same: "wing_fields c = wing_fields (c0\<lparr>Calculations.spline_top := p0,
                                   Calculations.spline_bottom := q0\<rparr>)"
    using prev by (simp add: wing_fields_run_slots c1) (simp add: wing_fields_def)
  have ok: "\<not> (\<exists>e. wing_and_lift akima (c\<lparr>Calculations.spline_top := p,
                                    Calculations.spline_bottom := q\<rparr>) p q = Inl e)" for p q
  proof -
    have "wing_fields (c\<lparr>Calculations.spline_top := p, Calculations.spline_bottom := q\<rparr>)
            = wing_fields (c0\<lparr>Calculations.spline_top := p0, Calculations.spline_bottom := q0\<rparr>)"
      using same by (simp add: wing_fields_def)
    from wing_and_lift_raises_cong [OF this, of akima p q p0 q0] wl0
    show ?thesis by simp
  qed
  show "c' = c"
  proof (cases "\<exists>e. interpolate_pressures akima c = Inl e")
    case True
    then show ?thesis by (rule calculateLiftAndSplines_failed(3) [OF assms])
  next
    case False
    then have "\<forall>e. interpolate_pressures akima c \<noteq> Inl e" by simp
    from calculateLiftAndSplines_failed(4) [OF assms this] ok
    show ?thesis by blast
  qed
qed

text \<open>
  After the example run a reading of three values arrives; the next cycle raises
  \<^verbatim>\<open>IndexError\<close> and the object still holds the splines and the lift of the run.
\<close>

theorem failed_cycle_keeps_last_result_witness:
  "calculateLiftAndSplines knot_interpolator example_calculations =
     (fst (calculateLiftAndSplines knot_interpolator example_calculations),
      Some example_result, None) \<and>
   calculateLiftAndSplines knot_interpolator example_short_reading =
     (example_short_reading, None, Some IndexError) \<and>
   Calculations.spline_top example_short_reading = [0, 1] \<and>
   Calculations.lift example_short_reading = Some (- 21/5)"
  using failed_cycle_keeps_last_result [OF example_short_reading_fails]
  by (simp add: example_calculateLiftAndSplines example_short_reading_fails)
     (simp add: example_short_reading_eq)


section \<open>Presentation task\<close>

text \<open>
  C7, at a plot object that has not yet received a result.  In the coefficient view with
  the spline overlay switched on the tick does not skip the overlays: it reads
  \<^verbatim>\<open>self.x_grid_interpolation\<close>, which does not exist yet, and raises
  \<^verbatim>\<open>AttributeError\<close>.  In the pressure view the same object passes the tick and the
  spline lines are empty.
\<close>

theorem plotCp_draws_without_result:
  "\<not> lift_data_available example_plot \<and>
   checkbox_tuple example_plot = (False, True, True) \<and>
   snd (animate example_plot) = Some AttributeError \<and>
   snd (animate (example_plot\<lparr>checkbox_tuple := (False, True, False)\<rparr>)) = None \<and>
   line_spline_top (fst (animate (example_plot\<lparr>checkbox_tuple := (False, True, False)\<rparr>))) = ([], [])"
  by (simp add: animate_def plotCp_def plotPressures_def example_plot_def example_masks
        set_pressures_top_def set_pressures_bottom_def set_spline_top_def attr_def exc_bind_def
        erase_splines_def updateDynamicLCDs_def)


text \<open>
  C8, as amended.  A tick in the coefficient view that raises nothing leaves in both
  pressure lines the selected pressures divided by \<open>0.5 \<sqdot> velocity\<^sup>2 \<sqdot> density\<close>, taken
  from the velocity and density held at that tick, and with the overlay switched on both
  spline lines hold the splines divided by the same number.  The lift LCDs, which the
  tick writes with the overlay switched off, show the lift itself.
\<close>

theorem plotCp_divides_pressures_and_splines:
  assumes cp: "checkbox_tuple p = (False, show_spline, True)"
    and ok: "animate p = (p', None)"
  shows "(\<exists>xs ps. Plot.x_coordinates_top p = Some xs \<and>
            bool_index (Plot.pressure_array p) (Plot.mask_top p) = Inr ps \<and>
            line_pressures_top p' = (xs, map (\<lambda>v. v / (0.5 * (Plot.velocity p)\<^sup>2 * Plot.density p)) ps)) \<and>
         (\<exists>xs ps. Plot.x_coordinates_bottom p = Some xs \<and>
            bool_index (Plot.pressure_array p) (Plot.mask_bottom p) = Inr ps \<and>
            line_pressures_bottom p' = (xs, map (\<lambda>v. v / (0.5 * (Plot.velocity p)\<^sup>2 * Plot.density p)) ps)) \<and>
         (show_spline \<longrightarrow>
            (\<exists>grid top bottom. x_grid_interpolation p = Some grid \<and>
               Plot.spline_top p = Some top \<and> Plot.spline_bottom p = Some bottom \<and>
               line_spline_top p' = (grid, map (\<lambda>v. v / (0.5 * (Plot.velocity p)\<^sup>2 * Plot.density p)) top) \<and>
               line_spline_bottom p' =
                 (grid, map (\<lambda>v. v / (0.5 * (Plot.velocity p)\<^sup>2 * Plot.density p)) bottom))) \<and>
         (\<not> show_spline \<longrightarrow>
            lift_top_lcd p' = Fixed 2 (Plot.lift p) \<and> lift_bottom_lcd p' = Fixed 2 (Plot.lift p))"
proof -
  let ?den = "denominator_cp p"
  let ?p0 = "p\<lparr>checkboxes_enabled := True\<rparr>"
  have run: "plotCp p = (p', None)"
    using ok cp by (simp add: animate_def)
  show ?thesis
  proof (cases show_spline)
    case True
    from run obtain q1 q2 q3 q4 q5 where
      s1: "set_pressures_top ?den ?p0 = Inr q1" and
      s2: "set_pressures_bottom ?den q1 = Inr q2" and
      s3: "set_spline_top ?den q2 = Inr q3" and
      s4: "set_spline_bottom ?den q3 = Inr q4" and
      s5: "set_wing_top (y_wing_scale_cp p) q4 = Inr q5" and
      s6: "set_wing_bottom (y_wing_scale_cp p) q5 = Inr p'"
      using cp True
      by (auto simp: plotCp_def run_statements_Cons_ok simp del: run_statements.simps(2))
    from s1 obtain xs ps where
      a1: "Plot.x_coordinates_top p = Some xs"
        "bool_index (Plot.pressure_array p) (Plot.mask_top p) = Inr ps"
        "q1 = ?p0\<lparr>line_pressures_top := (xs, map (\<lambda>v. v / ?den) ps)\<rparr>"
      by (auto elim!: set_pressures_top_Inr)
    from s2 a1 obtain xs' ps' where
      a2: "Plot.x_coordinates_bottom p = Some xs'"
        "bool_index (Plot.pressure_array p) (Plot.mask_bottom p) = Inr ps'"
        "q2 = q1\<lparr>line_pressures_bottom := (xs', map (\<lambda>v. v / ?den) ps')\<rparr>"
      by (auto elim!: set_pressures_bottom_Inr)
    from s3 a1 a2 obtain grid top where
      a3: "x_grid_interpolation p = Some grid" "Plot.spline_top p = Some top"
        "q3 = q2\<lparr>line_spline_top := (grid, map (\<lambda>v. v / ?den) top)\<rparr>"
      by (auto elim!: set_spline_top_Inr)
    from s4 a1 a2 a3 obtain bottom where
      a4: "Plot.spline_bottom p = Some bottom"
        "q4 = q3\<lparr>line_spline_bottom := (grid, map (\<lambda>v. v / ?den) bottom)\<rparr>"
      by (auto elim!: set_spline_bottom_Inr)
    from s5 obtain l5 where a5: "q5 = q4\<lparr>line_wing_top := l5\<rparr>"
      by (auto elim!: set_wing_top_Inr)
    from s6 obtain l6 where a6: "p' = q5\<lparr>line_wing_bottom := l6\<rparr>"
      by (auto elim!: set_wing_bottom_Inr)
    show ?thesis
      using True by (simp add: a1 a2 a3 a4 a5 a6 denominator_cp_def)
  next
    case False
    from run obtain q1 q2 where
      s1: "set_pressures_top ?den ?p0 = Inr q1" and
      s2: "set_pressures_bottom ?den q1 = Inr q2" and
      s3: "p' = updateDynamicLCDs (erase_splines q2)"
      using cp False
      by (auto simp: plotCp_def run_statements_Cons_ok simp del: run_statements.simps(2))
    from s1 obtain xs ps where
      a1: "Plot.x_coordinates_top p = Some xs"
        "bool_index (Plot.pressure_array p) (Plot.mask_top p) = Inr ps"
        "q1 = ?p0\<lparr>line_pressures_top := (xs, map (\<lambda>v. v / ?den) ps)\<rparr>"
      by (auto elim!: set_pressures_top_Inr)
    from s2 a1 obtain xs' ps' where
      a2: "Plot.x_coordinates_bottom p = Some xs'"
        "bool_index (Plot.pressure_array p) (Plot.mask_bottom p) = Inr ps'"
        "q2 = q1\<lparr>line_pressures_bottom := (xs', map (\<lambda>v. v / ?den) ps')\<rparr>"
      by (auto elim!: set_pressures_bottom_Inr)
    show ?thesis
      using False
      by (simp add: a1 a2 s3 updateDynamicLCDs_def erase_splines_def denominator_cp_def)
  qed
qed


text \<open>Two ticks of the example in the coefficient view, without and with overlay.\<close>

theorem plotCp_divides_pressures_and_splines_witness:
  "line_pressures_top (fst (animate example_plot_cp)) = ([1/10, 3/10, 6/10], [5/60, 3/60, 1/60]) \<and>
   lift_top_lcd (fst (animate example_plot_cp)) = Fixed 2 3 \<and>
   line_spline_bottom (fst (animate example_plot_cp_splines)) = ([0, 1], [0, (26/5)/60])"
  using
    plotCp_divides_pressures_and_splines [OF example_plot_cp_mode example_plot_cp_tick]
    plotCp_divides_pressures_and_splines
      [OF example_plot_cp_splines_mode example_plot_cp_splines_tick]
  by (simp add: example_plot_cp_tick example_plot_cp_splines_tick)

text \<open>
  C8 as stated fails for the lift: with lift 3 and denominator 60 the LCD shows 3.
\<close>

theorem lift_lcd_not_divided:
  "checkbox_tuple example_plot_cp = (False, False, True) \<and>
   snd (animate example_plot_cp) = None \<and>
   Plot.lift example_plot_cp = 3 \<and>
   0.5 * (Plot.velocity example_plot_cp)\<^sup>2 * Plot.density example_plot_cp = 60 \<and>
   lift_top_lcd (fst (animate example_plot_cp)) = Fixed 2 3 \<and>
   lift_top_lcd (fst (animate example_plot_cp)) \<noteq>
     Fixed 2 (Plot.lift example_plot_cp
               / (0.5 * (Plot.velocity example_plot_cp)\<^sup>2 * Plot.density example_plot_cp))"
  by (simp add: example_plot_cp_tick) (simp add: example_plot_cp_def example_plot_def)


section \<open>Acquisition task\<close>




text \<open>
  C6, at a file written by the program itself.  The first save creates the header and one
  line.  The second save reads the file back, and the column of the bottom mask, whose
  only entry consists of digits, is read as an integer column; the file written then has
  the same header and two lines, but the mask of the existing line has lost its leading
  zeros.
\<close>

theorem resave_rewrites_mask_column:
  "saveData example_data ''12:00:00'' 2 example_samples Missing = (example_file_1, None) \<and>
   saveData example_data ''12:05:00'' 3 example_samples example_file_1 = (example_file_2, None) \<and>
   (case (example_file_1, example_file_2) of
      (Csv header_1 lines_1, Csv header_2 lines_2) \<Rightarrow>
        header_2 = header_1 \<and> length lines_1 = 1 \<and> length lines_2 = 2 \<and>
        last (lines_1 ! 0) = Text ''0001100000000000'' \<and>
        last (lines_2 ! 0) = Text ''1100000000000'' \<and>
        lines_2 ! 0 \<noteq> lines_1 ! 0
    | _ \<Rightarrow> False)"
  by (simp add: example_first_save example_second_save)
     (simp add: example_file_1_def example_file_2_def)

section \<open>Configuration\<close>

text \<open>
  C9, at a candidate with a repeated coordinate that follows an accepted configuration.
  A candidate that \<^verbatim>\<open>setUp\<close> rejects still reaches the acquisition task.  The
  first run accepts the taps of the example and emits \<^verbatim>\<open>update_sig\<close> with the two
  masks and the array of coordinates; the acquisition task then reads the setup of the
  example.  In the second run tap 2 has the coordinate of tap 0 on the top surface:
  only the warning and the switching-off of the plot button are emitted, and the
  attributes that the acquisition task keeps are the same objects as before.  But the
  array it keeps is the array that the second run has overwritten, so the coordinates
  it reads, and writes into the row it saves, are those of the rejected candidate, with
  the repeated coordinate among the taps of its top mask.
\<close>

theorem rejected_coordinates_reach_saved_row:
  "snd (snd accepted_run) =
     Inr [Update_sig (setup_data.mask_top example_setup)
            (setup_data.mask_bottom example_setup) 0,
          Path_name_sig, Switch_plot_button_sig True] \<and>
   setup_attrs_at (fst accepted_run) kept_after_accepted = Some example_setup \<and>
   snd (snd rejected_run) =
     Inr [ShowWarning ''Please check for duplicates.'', Switch_plot_button_sig False] \<and>
   kept_after_rejected = kept_after_accepted \<and>
   setup_attrs_at (fst rejected_run) kept_after_rejected =
     Some (example_setup\<lparr>setup_data.x_coordinates :=
             [1/10, 3/10, 1/10, 2/10, 7/10, 0, 0, 0, 0, 0, 0, 0, 0, 0, 0, 0]\<rparr>) \<and>
   bool_index [1/10, 3/10, 1/10, 2/10, 7/10, 0, 0, 0, 0, 0, 0, 0, 0, 0, 0, 0 :: real]
       (setup_data.mask_top example_setup) = Inr [1/10, 3/10, 1/10] \<and>
   \<not> distinct [1/10, 3/10, 1/10 :: real] \<and>
   new_row Data_after_rejected ''12:00:00'' 2 example_samples =
     Inr ([StrCell (Text ''12:00:00'')]
          @ map FloatCell [21, 1013, 40, 5/4]
          @ [FloatCell 5, FloatCell 10, FloatCell 3, FloatCell (1/2), IntCell 1, FloatCell 2]
          @ map FloatCell [5, 3, 1, 2, 4, 0, 0, 0, 0, 0, 0, 0, 0, 0, 0, 0]
          @ map FloatCell [1/10, 3/10, 1/10, 2/10, 7/10, 0, 0, 0, 0, 0, 0, 0, 0, 0, 0, 0]
          @ [StrCell (Text ''1110000000000000''), StrCell (Text ''0001100000000000'')])"
proof (intro conjI)
  show "snd (snd accepted_run) =
     Inr [Update_sig (setup_data.mask_top example_setup)
            (setup_data.mask_bottom example_setup) 0,
          Path_name_sig, Switch_plot_button_sig True]"
    unfolding example_accepted_run by simp
  show "setup_attrs_at (fst accepted_run) kept_after_accepted = Some example_setup"
    unfolding example_accepted_run example_kept_after_accepted
    by (simp add: setup_attrs_at_def example_setup_def)
  show "snd (snd rejected_run) =
     Inr [ShowWarning ''Please check for duplicates.'', Switch_plot_button_sig False]"
    unfolding example_rejected_run by simp
  show "kept_after_rejected = kept_after_accepted"
    by (rule example_kept_after_rejected)
  show "setup_attrs_at (fst rejected_run) kept_after_rejected =
     Some (example_setup\<lparr>setup_data.x_coordinates :=
             [1/10, 3/10, 1/10, 2/10, 7/10, 0, 0, 0, 0, 0, 0, 0, 0, 0, 0, 0]\<rparr>)"
    unfolding example_rejected_run example_kept_after_rejected example_kept_after_accepted
    by (simp add: setup_attrs_at_def example_setup_def)
  show "bool_index [1/10, 3/10, 1/10, 2/10, 7/10, 0, 0, 0, 0, 0, 0, 0, 0, 0, 0, 0 :: real]
       (setup_data.mask_top example_setup) = Inr [1/10, 3/10, 1/10]"
    by (simp add: bool_index_def example_setup_def)
  show "\<not> distinct [1/10, 3/10, 1/10 :: real]"
    by simp
  show "new_row Data_after_rejected ''12:00:00'' 2 example_samples =
     Inr ([StrCell (Text ''12:00:00'')]
          @ map FloatCell [21, 1013, 40, 5/4]
          @ [FloatCell 5, FloatCell 10, FloatCell 3, FloatCell (1/2), IntCell 1, FloatCell 2]
          @ map FloatCell [5, 3, 1, 2, 4, 0, 0, 0, 0, 0, 0, 0, 0, 0, 0, 0]
          @ map FloatCell [1/10, 3/10, 1/10, 2/10, 7/10, 0, 0, 0, 0, 0, 0, 0, 0, 0, 0, 0]
          @ [StrCell (Text ''1110000000000000''), StrCell (Text ''0001100000000000'')])"
    unfolding example_row_after_rejected by simp
qed

end
